theory Spec2Isabelle
  imports Main "HOL-Library.Word" "HOL-Library.AList" "HOL-Library.Char_ord"
    "HOL-Library.List_Lexorder"
begin

section \<open>Shared vocabulary: bytes, exceptions, log records\<close>

type_synonym bytes = "8 word list"

datatype log_level = DEBUG | INFO | WARNING | ERROR | EXCEPTION

type_synonym log_entry = "log_level \<times> string"

text \<open>
  The Python exceptions the storage services raise or let through.
  \<open>ClientError resp s\<close> is botocore's error for an error response of the provider:
  \<open>resp\<close> is the \<^verbatim>\<open>"Error"\<close> entry of \<^verbatim>\<open>e.response\<close> when there is one, \<open>s\<close> is
  \<^verbatim>\<open>str(e)\<close>. \<open>RuntimeError msg cause\<close> is \<^verbatim>\<open>raise RuntimeError(msg) from cause\<close>.
  \<open>OSError n\<close> is an error of the system with number \<open>n\<close> that has no class of its own.
  \<open>ValidationError fields\<close> is the record library's error, with the fields that
  failed. \<open>OtherException\<close> is any class that no handler of the services names.
\<close>

datatype exn =
    ValueError string
  | TypeError string
  | RuntimeError string exn
  | FileNotFoundError string
  | FileExistsError
  | NotADirectoryError
  | IsADirectoryError
  | PermissionError
  | OSError nat
  | NoCredentialsError
  | ClientError "(string \<times> string) list option" string
  | ValidationError "string list"
  | OtherException string

text \<open>
  The error taxonomy of the specification (section 7), read on the exceptions:
  InvalidInput is a missing or ill-typed required argument, NotFound is an absent file or
  namespace (for the object store: the provider's answer for an absent key).
\<close>

definition error_code_of :: "(string \<times> string) list option \<Rightarrow> string" where
  "error_code_of resp =
     (case resp of None \<Rightarrow> ''Unknown''
      | Some err \<Rightarrow> (case map_of err ''Code'' of None \<Rightarrow> ''Unknown'' | Some c \<Rightarrow> c))"

definition error_message_of :: "(string \<times> string) list option \<Rightarrow> string \<Rightarrow> string" where
  "error_message_of resp str_e =
     (case resp of None \<Rightarrow> str_e
      | Some err \<Rightarrow> (case map_of err ''Message'' of None \<Rightarrow> str_e | Some m \<Rightarrow> m))"

fun is_InvalidInput :: "exn \<Rightarrow> bool" where
  "is_InvalidInput (ValueError _) = True"
| "is_InvalidInput (TypeError _) = True"
| "is_InvalidInput _ = False"

fun is_NotFound :: "exn \<Rightarrow> bool" where
  "is_NotFound (FileNotFoundError _) = True"
| "is_NotFound (ClientError resp _) = (error_code_of resp \<in> {''NoSuchKey'', ''404''})"
| "is_NotFound _ = False"

section \<open>The object-storage provider\<close>

text \<open>
  The client of \<^verbatim>\<open>s3.py\<close> is boto3's; the services only call it. Its state is modelled
  as far as the services observe it: whether credentials can be resolved, an exception
  that every request ends with (\<open>fault\<close>: an error response of the provider is a
  \<^verbatim>\<open>ClientError\<close>, a failure on the client's side, such as a lost connection, is of
  another class), the buckets with their objects, and the sequence of requests made so
  far. A request is signed before it is sent, so missing credentials come first; a
  missing bucket or key is the provider's error response; deleting an absent key is not
  an error.
\<close>

datatype s3_call =
    PutObject string string bytes
  | GetObject string string
  | ListObjectsV2 string string
  | DeleteObject string string
  | HeadObject string string

record s3_world =
  has_credentials :: bool
  fault :: "exn option"
  buckets :: "(string \<times> (string \<times> bytes) list) list"
  calls :: "s3_call list"
  s3_log :: "log_entry list"

definition no_such_bucket :: exn where
  "no_such_bucket =
     ClientError (Some [(''Code'', ''NoSuchBucket''), (''Message'', ''The specified bucket does not exist'')])
       ''An error occurred (NoSuchBucket): The specified bucket does not exist''"

definition no_such_key :: "string \<Rightarrow> exn" where
  "no_such_key k =
     ClientError (Some [(''Code'', ''NoSuchKey''), (''Message'', ''The specified key does not exist.''),
                        (''Key'', k)])
       ''An error occurred (NoSuchKey) when calling the GetObject operation: The specified key does not exist.''"

definition head_not_found :: exn where
  "head_not_found =
     ClientError (Some [(''Code'', ''404''), (''Message'', ''Not Found'')])
       ''An error occurred (404) when calling the HeadObject operation: Not Found''"

definition request :: "s3_world \<Rightarrow> string \<Rightarrow> exn + (string \<times> bytes) list" where
  "request w b =
     (if \<not> has_credentials w then Inl NoCredentialsError
      else case fault w of
        Some e \<Rightarrow> Inl e
      | None \<Rightarrow> (case map_of (buckets w) b of
                   None \<Rightarrow> Inl no_such_bucket
                 | Some objs \<Rightarrow> Inr objs))"

definition called :: "s3_world \<Rightarrow> s3_call \<Rightarrow> s3_world" where
  "called w c = w\<lparr>calls := calls w @ [c]\<rparr>"

definition put_object :: "s3_world \<Rightarrow> string \<Rightarrow> string \<Rightarrow> bytes \<Rightarrow> (exn + unit) \<times> s3_world" where
  "put_object w b k body =
     (let w1 = called w (PutObject b k body)
      in case request w b of
           Inl e \<Rightarrow> (Inl e, w1)
         | Inr objs \<Rightarrow>
             (Inr (), w1\<lparr>buckets := AList.update b (AList.update k body objs) (buckets w)\<rparr>))"

definition get_object :: "s3_world \<Rightarrow> string \<Rightarrow> string \<Rightarrow> (exn + bytes) \<times> s3_world" where
  "get_object w b k =
     (let w1 = called w (GetObject b k)
      in case request w b of
           Inl e \<Rightarrow> (Inl e, w1)
         | Inr objs \<Rightarrow>
             (case map_of objs k of None \<Rightarrow> (Inl (no_such_key k), w1) | Some body \<Rightarrow> (Inr body, w1)))"

text \<open>The result of \<open>list_objects_v2\<close> is what \<^verbatim>\<open>response.get("Contents", [])\<close> yields,
  each item reduced to its \<^verbatim>\<open>"Key"\<close>: the keys with the prefix in the order of their
  bytes, and no more than a thousand of them in one answer.\<close>

definition startswith :: "string \<Rightarrow> string \<Rightarrow> bool" where
  "startswith s p = (take (length p) s = p)"

definition list_objects_v2 :: "s3_world \<Rightarrow> string \<Rightarrow> string \<Rightarrow> (exn + string list) \<times> s3_world" where
  "list_objects_v2 w b pre =
     (let w1 = called w (ListObjectsV2 b pre)
      in case request w b of
           Inl e \<Rightarrow> (Inl e, w1)
         | Inr objs \<Rightarrow> (Inr (take 1000 (sort (filter (\<lambda>k. startswith k pre) (map fst objs)))), w1))"

definition delete_object :: "s3_world \<Rightarrow> string \<Rightarrow> string \<Rightarrow> (exn + unit) \<times> s3_world" where
  "delete_object w b k =
     (let w1 = called w (DeleteObject b k)
      in case request w b of
           Inl e \<Rightarrow> (Inl e, w1)
         | Inr objs \<Rightarrow> (Inr (), w1\<lparr>buckets := AList.update b (AList.delete k objs) (buckets w)\<rparr>))"

definition head_object :: "s3_world \<Rightarrow> string \<Rightarrow> string \<Rightarrow> (exn + nat) \<times> s3_world" where
  "head_object w b k =
     (let w1 = called w (HeadObject b k)
      in case request w b of
           Inl e \<Rightarrow> (Inl e, w1)
         | Inr objs \<Rightarrow>
             (case map_of objs k of
                None \<Rightarrow> (Inl head_not_found, w1)
              | Some body \<Rightarrow> (Inr (length body), w1)))"

section \<open>S3StorageService (s3.py)\<close>

text \<open>
  \<open>identifier\<close> and \<open>file_name\<close> are a \<^verbatim>\<open>str\<close> or \<^verbatim>\<open>None\<close>; \<open>py_not\<close> is Python's
  \<^verbatim>\<open>not x\<close> on them and \<open>fmt\<close> their rendering in an f-string. The \<open>data\<close> argument is
  \<^verbatim>\<open>None\<close>, a \<^verbatim>\<open>bytes\<close> object, or an object of any other type, given by the rendering of
  its type and of itself. Each operation takes \<^verbatim>\<open>self.bucket\<close> and the provider's state
  and returns what it returns or raises, with the state it leaves.
\<close>

datatype pydata = DNone | DBytes bytes | DOther string string

fun py_not :: "string option \<Rightarrow> bool" where
  "py_not None = True"
| "py_not (Some s) = (s = [])"

fun fmt :: "string option \<Rightarrow> string" where
  "fmt None = ''None''"
| "fmt (Some s) = s"

text \<open>\<open>show_nat\<close> is \<^verbatim>\<open>str\<close> on a non-negative integer, as an f-string renders it.\<close>

fun show_nat :: "nat \<Rightarrow> string" where
  "show_nat n =
     (if n < 10 then [char_of (48 + n)] else show_nat (n div 10) @ [char_of (48 + n mod 10)])"

definition alog :: "s3_world \<Rightarrow> log_level \<Rightarrow> string \<Rightarrow> s3_world" where
  "alog w lvl msg = w\<lparr>s3_log := s3_log w @ [(lvl, msg)]\<rparr>"

definition S3_build_path :: "string option \<Rightarrow> string option \<Rightarrow> string" where
  "S3_build_path identifier file_name = ''tenant-'' @ fmt identifier @ ''/'' @ fmt file_name"

definition bucket_missing_msg :: "string \<Rightarrow> string" where
  "bucket_missing_msg bucket =
     ''S3 bucket '' @ [CHR 0x27] @ bucket @ [CHR 0x27]
       @ '' does not exist. Please create the bucket or check your configuration.''"

text \<open>The \<^verbatim>\<open>except\<close> clauses of \<open>save_file\<close>, in their order; an exception of another
  class passes through them.\<close>

fun save_file_except ::
  "string \<Rightarrow> string option \<Rightarrow> string option \<Rightarrow> exn \<Rightarrow> s3_world \<Rightarrow> (exn + unit) \<times> s3_world" where
  "save_file_except bucket identifier file_name NoCredentialsError w =
     (Inl NoCredentialsError, alog w EXCEPTION ''Credentials not available for AWS S3.'')"
| "save_file_except bucket identifier file_name (ClientError resp str_e) w =
     (let error_code = error_code_of resp;
          error_message = error_message_of resp str_e
      in if error_code = ''NoSuchBucket'' then
           (let msg = bucket_missing_msg bucket
            in (Inl (RuntimeError msg (ClientError resp str_e)), alog w EXCEPTION msg))
         else
           (Inl (ClientError resp str_e),
            alog w EXCEPTION (''Error saving file '' @ fmt file_name @ '' in tenant '' @ fmt identifier
                               @ '': '' @ error_code @ '' - '' @ error_message)))"
| "save_file_except bucket identifier file_name e w = (Inl e, w)"

definition S3StorageService_save_file ::
  "string \<Rightarrow> s3_world \<Rightarrow> string option \<Rightarrow> string option \<Rightarrow> pydata \<Rightarrow> (exn + unit) \<times> s3_world" where
  "S3StorageService_save_file bucket w identifier file_name data =
     (if py_not identifier \<or> py_not file_name \<or> data = DNone then
        (Inl (ValueError ''identifier, file_name, and data must be provided''), w)
      else
        (let key = ''tenant-'' @ fmt identifier @ ''/'' @ fmt file_name
         in case data of
              DNone \<Rightarrow>
                (Inl (ValueError ''Data cannot be None''),
                 alog w ERROR ''Data is None - this should have been caught by validation'')
            | DOther ty rendering \<Rightarrow>
                (Inl (TypeError (''Data must be bytes, got '' @ ty)),
                 alog w ERROR (''Data is not bytes, it'' @ [CHR 0x27] @ ''s '' @ ty @ '': '' @ rendering))
            | DBytes body \<Rightarrow>
                (case put_object w bucket key body of
                   (Inr u, w1) \<Rightarrow>
                     (Inr (), alog w1 INFO (''File '' @ fmt file_name @ '' saved successfully in tenant ''
                                             @ fmt identifier @ ''.''))
                 | (Inl e, w1) \<Rightarrow> save_file_except bucket identifier file_name e w1)))"

text \<open>In the four operations below only \<^verbatim>\<open>ClientError\<close> is caught: it is logged and raised
  again; any other exception leaves the operation as it is.\<close>

fun log_client_error :: "exn \<Rightarrow> string \<Rightarrow> s3_world \<Rightarrow> s3_world" where
  "log_client_error (ClientError resp str_e) msg w = alog w EXCEPTION msg"
| "log_client_error e msg w = w"

definition S3StorageService_get_file ::
  "string \<Rightarrow> s3_world \<Rightarrow> string option \<Rightarrow> string option \<Rightarrow> (exn + bytes) \<times> s3_world" where
  "S3StorageService_get_file bucket w identifier file_name =
     (if py_not identifier \<or> py_not file_name then
        (Inl (ValueError ''identifier and file_name must be provided''), w)
      else
        (let key = ''tenant-'' @ fmt identifier @ ''/'' @ fmt file_name
         in case get_object w bucket key of
              (Inr body, w1) \<Rightarrow>
                (Inr body, alog w1 INFO (''File '' @ fmt file_name @ '' retrieved successfully from tenant ''
                                          @ fmt identifier @ ''.''))
            | (Inl e, w1) \<Rightarrow>
                (Inl e, log_client_error e (''Error retrieving file '' @ fmt file_name @ '' from tenant ''
                                             @ fmt identifier) w1)))"

definition S3StorageService_list_files ::
  "string \<Rightarrow> s3_world \<Rightarrow> string option \<Rightarrow> (exn + string list) \<times> s3_world" where
  "S3StorageService_list_files bucket w identifier =
     (if py_not identifier then
        (Inl (ValueError ''identifier must be provided''), w)
      else
        (let pre = ''tenant-'' @ fmt identifier @ ''/''
         in case list_objects_v2 w bucket pre of
              (Inl e, w1) \<Rightarrow>
                (Inl e, log_client_error e (''Error listing files in tenant '' @ fmt identifier) w1)
            | (Inr contents, w1) \<Rightarrow>
                (let files = map (\<lambda>key. drop (length pre) key)
                               (filter (\<lambda>key. startswith key pre \<and> CHR ''/'' \<notin> set (drop (length pre) key))
                                  contents)
                 in (Inr files, alog w1 INFO (show_nat (length files) @ '' files listed in tenant ''
                                              @ fmt identifier @ ''.'')))))"

definition S3StorageService_delete_file ::
  "string \<Rightarrow> s3_world \<Rightarrow> string option \<Rightarrow> string option \<Rightarrow> (exn + unit) \<times> s3_world" where
  "S3StorageService_delete_file bucket w identifier file_name =
     (if py_not identifier \<or> py_not file_name then
        (Inl (ValueError ''identifier and file_name must be provided''), w)
      else
        (let key = ''tenant-'' @ fmt identifier @ ''/'' @ fmt file_name
         in case delete_object w bucket key of
              (Inr u, w1) \<Rightarrow>
                (Inr (), alog w1 INFO (''File '' @ fmt file_name @ '' deleted successfully from tenant ''
                                        @ fmt identifier @ ''.''))
            | (Inl e, w1) \<Rightarrow>
                (Inl e, log_client_error e (''Error deleting file '' @ fmt file_name @ '' from tenant ''
                                             @ fmt identifier) w1)))"

definition S3StorageService_get_file_size ::
  "string \<Rightarrow> s3_world \<Rightarrow> string option \<Rightarrow> string option \<Rightarrow> (exn + nat) \<times> s3_world" where
  "S3StorageService_get_file_size bucket w identifier file_name =
     (if py_not identifier \<or> py_not file_name then
        (Inl (ValueError ''identifier and file_name must be provided''), w)
      else
        (let key = ''tenant-'' @ fmt identifier @ ''/'' @ fmt file_name
         in case head_object w bucket key of
              (Inr file_size, w1) \<Rightarrow>
                (Inr file_size, alog w1 INFO (''File '' @ fmt file_name
                                               @ '' size retrieved successfully from tenant ''
                                               @ fmt identifier @ '': '' @ show_nat file_size @ '' bytes.''))
            | (Inl e, w1) \<Rightarrow>
                (Inl e, log_client_error e (''Error getting file size for '' @ fmt file_name
                                             @ '' in tenant '' @ fmt identifier) w1)))"

section \<open>The local file system\<close>

text \<open>
  \<^verbatim>\<open>local.py\<close> reaches the disk through path objects. A path is the list of its parts;
  \<open>path_join\<close> is the operator \<^verbatim>\<open>/\<close> on a POSIX path: the right operand is split at the
  separator, empty parts and \<^verbatim>\<open>.\<close> are dropped, and an operand that starts with the
  separator replaces the left one. The file system is a table from locations (parts
  from the root, without \<^verbatim>\<open>..\<close>) to directories, regular files and special files; the
  root is a directory. A special file is a device such as \<^verbatim>\<open>/dev/null\<close>: a write to it
  returns and leaves it as it is, and a read yields its own bytes. \<open>denied\<close> lists what
  the process may not do: read or write a file, make or remove an entry of a directory
  (\<open>Write\<close>), look a name up in a directory (\<open>Search\<close>). \<open>name_max\<close> and \<open>path_max\<close>
  are the limits of the system on the bytes of one name and of a whole path.
  \<open>write_fault\<close> is an error the system answers a write to an opened file with (a full
  disk, say). It has no links; the errors are those of Linux and of Python 3.11.
\<close>

type_synonym path = "string list"

datatype node = Dir | File bytes | Special bytes

datatype access = Read | Write | Search

record fs_state =
  nodes :: "(path \<times> node) list"
  denied :: "(path \<times> access) list"
  name_max :: nat
  path_max :: nat
  write_fault :: "exn option"
  fs_log :: "log_entry list"

fun split_sep :: "string \<Rightarrow> string list" where
  "split_sep [] = [[]]"
| "split_sep (c # cs) =
     (if c = CHR ''/'' then [] # split_sep cs
      else (case split_sep cs of [] \<Rightarrow> [[c]] | p # ps \<Rightarrow> (c # p) # ps))"

definition path_parts :: "string \<Rightarrow> path" where
  "path_parts s = filter (\<lambda>p. p \<noteq> [] \<and> p \<noteq> ''.'') (split_sep s)"

definition path_join :: "path \<Rightarrow> string \<Rightarrow> path" where
  "path_join base s = (if take 1 s = ''/'' then path_parts s else base @ path_parts s)"

definition node_at :: "(path \<times> node) list \<Rightarrow> path \<Rightarrow> node option" where
  "node_at ns p = (if p = [] then Some Dir else map_of ns p)"

definition forbidden :: "fs_state \<Rightarrow> path \<Rightarrow> access \<Rightarrow> bool" where
  "forbidden st p a = ((p, a) \<in> set (denied st))"

text \<open>\<open>walk\<close> resolves the parts of a path from a location, as the system does: each
  part is looked up in a directory that exists and may be searched, a name over the
  limit is refused (error number 36), \<^verbatim>\<open>..\<close> goes to the parent. The result is the
  location meant, which need not exist. \<open>resolve\<close> is a system call on a path: Python
  refuses a path with a zero byte before the call, and the system one that is too long.\<close>

fun walk :: "fs_state \<Rightarrow> path \<Rightarrow> string list \<Rightarrow> exn + path" where
  "walk st cur [] = Inr cur"
| "walk st cur (c # cs) =
     (case node_at (nodes st) cur of
        None \<Rightarrow> Inl (FileNotFoundError ''No such file or directory'')
      | Some (File content) \<Rightarrow> Inl NotADirectoryError
      | Some (Special content) \<Rightarrow> Inl NotADirectoryError
      | Some Dir \<Rightarrow>
          (if forbidden st cur Search then Inl PermissionError
           else if name_max st < length c then Inl (OSError 36)
           else walk st (if c = ''..'' then butlast cur else cur @ [c]) cs))"

definition has_nul :: "path \<Rightarrow> bool" where
  "has_nul p = list_ex (\<lambda>c. CHR 0x00 \<in> set c) p"

definition path_len :: "path \<Rightarrow> nat" where
  "path_len p = sum_list (map (\<lambda>c. Suc (length c)) p)"

definition refused :: "fs_state \<Rightarrow> path \<Rightarrow> exn option" where
  "refused st p =
     (if has_nul p then Some (ValueError ''embedded null byte'')
      else if path_max st \<le> path_len p then Some (OSError 36)
      else None)"

definition resolve :: "fs_state \<Rightarrow> path \<Rightarrow> exn + path" where
  "resolve st p = (case refused st p of Some e \<Rightarrow> Inl e | None \<Rightarrow> walk st [] p)"

text \<open>The tests \<^verbatim>\<open>exists()\<close> and \<^verbatim>\<open>is_dir()\<close> of a path ask the system for the status of
  the file. They answer no when the system finds no such file, or a part that is not a
  directory, and for a zero byte; any other error of the system they raise.\<close>

fun ignored :: "exn \<Rightarrow> bool" where
  "ignored (FileNotFoundError m) = True"
| "ignored NotADirectoryError = True"
| "ignored (ValueError m) = True"
| "ignored e = False"

definition path_exists :: "fs_state \<Rightarrow> path \<Rightarrow> exn + bool" where
  "path_exists st p =
     (case resolve st p of
        Inl e \<Rightarrow> (if ignored e then Inr False else Inl e)
      | Inr q \<Rightarrow> Inr (node_at (nodes st) q \<noteq> None))"

definition path_is_dir :: "fs_state \<Rightarrow> path \<Rightarrow> exn + bool" where
  "path_is_dir st p =
     (case resolve st p of
        Inl e \<Rightarrow> (if ignored e then Inr False else Inl e)
      | Inr q \<Rightarrow> Inr (node_at (nodes st) q = Some Dir))"

text \<open>\<^verbatim>\<open>mkdir(parents=True, exist_ok=True)\<close>: every missing directory on the way is made;
  a part that is a file makes it fail, and so does a directory in which nothing may be
  made, and a name or a path the system refuses.\<close>

fun mkdir_parents :: "fs_state \<Rightarrow> path \<Rightarrow> string list \<Rightarrow> (exn + unit) \<times> fs_state" where
  "mkdir_parents st cur [] = (Inr (), st)"
| "mkdir_parents st cur (c # cs) =
     (case node_at (nodes st) cur of
        None \<Rightarrow> (Inl (FileNotFoundError ''No such file or directory''), st)
      | Some (File content) \<Rightarrow> (Inl NotADirectoryError, st)
      | Some (Special content) \<Rightarrow> (Inl NotADirectoryError, st)
      | Some Dir \<Rightarrow>
          (if forbidden st cur Search then (Inl PermissionError, st)
           else if name_max st < length c then (Inl (OSError 36), st)
           else if c = ''..'' then mkdir_parents st (butlast cur) cs
           else
             (case node_at (nodes st) (cur @ [c]) of
                Some Dir \<Rightarrow> mkdir_parents st (cur @ [c]) cs
              | Some (File content) \<Rightarrow>
                  (Inl (if cs = [] then FileExistsError else NotADirectoryError), st)
              | Some (Special content) \<Rightarrow>
                  (Inl (if cs = [] then FileExistsError else NotADirectoryError), st)
              | None \<Rightarrow>
                  (if forbidden st cur Write then (Inl PermissionError, st)
                   else mkdir_parents (st\<lparr>nodes := AList.update (cur @ [c]) Dir (nodes st)\<rparr>)
                          (cur @ [c]) cs))))"

definition mkdir :: "fs_state \<Rightarrow> path \<Rightarrow> (exn + unit) \<times> fs_state" where
  "mkdir st p = (case refused st p of Some e \<Rightarrow> (Inl e, st) | None \<Rightarrow> mkdir_parents st [] p)"

text \<open>Opening a path with mode \<^verbatim>\<open>"wb"\<close> and writing the payload: a regular file is
  made or emptied when it is opened, then written; a special file takes the write and
  keeps nothing.\<close>

definition write_bytes :: "fs_state \<Rightarrow> path \<Rightarrow> bytes \<Rightarrow> (exn + unit) \<times> fs_state" where
  "write_bytes st q data =
     (case write_fault st of
        Some e \<Rightarrow> (Inl e, st\<lparr>nodes := AList.update q (File []) (nodes st)\<rparr>)
      | None \<Rightarrow> (Inr (), st\<lparr>nodes := AList.update q (File data) (nodes st)\<rparr>))"

definition open_wb_write :: "fs_state \<Rightarrow> path \<Rightarrow> bytes \<Rightarrow> (exn + unit) \<times> fs_state" where
  "open_wb_write st p data =
     (case resolve st p of
        Inl e \<Rightarrow> (Inl e, st)
      | Inr q \<Rightarrow>
          (case node_at (nodes st) q of
             Some Dir \<Rightarrow> (Inl IsADirectoryError, st)
           | Some (File content) \<Rightarrow>
               (if forbidden st q Write then (Inl PermissionError, st) else write_bytes st q data)
           | Some (Special content) \<Rightarrow>
               (if forbidden st q Write then (Inl PermissionError, st)
                else (case write_fault st of Some e \<Rightarrow> (Inl e, st) | None \<Rightarrow> (Inr (), st)))
           | None \<Rightarrow>
               (if forbidden st (butlast q) Write then (Inl PermissionError, st)
                else write_bytes st q data)))"

definition open_rb_read :: "fs_state \<Rightarrow> path \<Rightarrow> exn + bytes" where
  "open_rb_read st p =
     (case resolve st p of
        Inl e \<Rightarrow> Inl e
      | Inr q \<Rightarrow>
          (case node_at (nodes st) q of
             Some Dir \<Rightarrow> Inl IsADirectoryError
           | Some (File content) \<Rightarrow> (if forbidden st q Read then Inl PermissionError else Inr content)
           | Some (Special content) \<Rightarrow>
               (if forbidden st q Read then Inl PermissionError else Inr content)
           | None \<Rightarrow> Inl (FileNotFoundError ''No such file or directory'')))"

definition unlink :: "fs_state \<Rightarrow> path \<Rightarrow> (exn + unit) \<times> fs_state" where
  "unlink st p =
     (case resolve st p of
        Inl e \<Rightarrow> (Inl e, st)
      | Inr q \<Rightarrow>
          (case node_at (nodes st) q of
             Some Dir \<Rightarrow> (Inl IsADirectoryError, st)
           | None \<Rightarrow> (Inl (FileNotFoundError ''No such file or directory''), st)
           | Some other \<Rightarrow>
               (if forbidden st (butlast q) Write then (Inl PermissionError, st)
                else (Inr (), st\<lparr>nodes := AList.delete q (nodes st)\<rparr>))))"

text \<open>The names of the regular files that are entries of the directory at \<open>q\<close>.\<close>

fun is_File :: "node \<Rightarrow> bool" where
  "is_File (File content) = True"
| "is_File other = False"

definition file_entries :: "fs_state \<Rightarrow> path \<Rightarrow> string list" where
  "file_entries st q =
     map (\<lambda>(p, n). last p)
       (filter (\<lambda>(p, n). p \<noteq> [] \<and> butlast p = q \<and> is_File n) (nodes st))"

definition iterdir_files :: "fs_state \<Rightarrow> path \<Rightarrow> exn + string list" where
  "iterdir_files st p =
     (case resolve st p of
        Inl e \<Rightarrow> Inl e
      | Inr q \<Rightarrow>
          (case node_at (nodes st) q of
             Some Dir \<Rightarrow> (if forbidden st q Read then Inl PermissionError else Inr (file_entries st q))
           | None \<Rightarrow> Inl (FileNotFoundError ''No such file or directory'')
           | Some other \<Rightarrow> Inl NotADirectoryError))"

text \<open>A location that \<open>save_file\<close> can write as a regular file and \<open>get_file\<close> can read
  back: it may be written and read, and it is either absent from a directory in which
  an entry may be made, or a regular file.\<close>

definition regular_target :: "fs_state \<Rightarrow> path \<Rightarrow> bool" where
  "regular_target st q =
     (\<not> forbidden st q Read \<and> \<not> forbidden st q Write \<and>
      (case node_at (nodes st) q of
         None \<Rightarrow> \<not> forbidden st (butlast q) Write
       | Some (File content) \<Rightarrow> True
       | Some other \<Rightarrow> False))"

section \<open>LocalStorageService (local.py)\<close>

text \<open>Each operation takes \<^verbatim>\<open>self.data_dir\<close> and the state of the disk and the log,
  and returns what it returns or raises, with the state it leaves. \<open>identifier\<close> and
  \<open>file_name\<close> are strings, as annotated: this backend does not check them.\<close>

definition flog :: "fs_state \<Rightarrow> log_level \<Rightarrow> string \<Rightarrow> fs_state" where
  "flog st lvl msg = st\<lparr>fs_log := fs_log st @ [(lvl, msg)]\<rparr>"

definition LocalStorageService_build_full_path :: "path \<Rightarrow> string \<Rightarrow> string \<Rightarrow> path" where
  "LocalStorageService_build_full_path data_dir identifier file_name =
     path_join (path_join data_dir identifier) file_name"

definition LocalStorageService_save_file ::
  "path \<Rightarrow> fs_state \<Rightarrow> string \<Rightarrow> string \<Rightarrow> bytes \<Rightarrow> (exn + unit) \<times> fs_state" where
  "LocalStorageService_save_file data_dir st identifier file_name data =
     (let folder_path = path_join data_dir identifier
      in case mkdir st folder_path of
           (Inl e, st1) \<Rightarrow> (Inl e, st1)
         | (Inr u, st1) \<Rightarrow>
             (let file_path = path_join folder_path file_name
              in case open_wb_write st1 file_path data of
                   (Inr u, st2) \<Rightarrow>
                     (Inr (), flog st2 INFO (''File '' @ file_name @ '' saved successfully with identifier ''
                                              @ identifier @ ''.''))
                 | (Inl e, st2) \<Rightarrow>
                     (Inl e, flog st2 EXCEPTION (''Error saving file '' @ file_name @ '' with identifier ''
                                                  @ identifier))))"

definition LocalStorageService_get_file ::
  "path \<Rightarrow> fs_state \<Rightarrow> string \<Rightarrow> string \<Rightarrow> (exn + bytes) \<times> fs_state" where
  "LocalStorageService_get_file data_dir st identifier file_name =
     (let file_path = path_join (path_join data_dir identifier) file_name
      in case path_exists st file_path of
           Inl e \<Rightarrow> (Inl e, st)
         | Inr False \<Rightarrow>
             (Inl (FileNotFoundError (''File '' @ file_name @ '' not found with identifier '' @ identifier)),
              flog st WARNING (''File '' @ file_name @ '' not found with identifier '' @ identifier @ ''.''))
         | Inr True \<Rightarrow>
             (case open_rb_read st file_path of
                Inl e \<Rightarrow> (Inl e, st)
              | Inr content \<Rightarrow>
                  (Inr content, flog st DEBUG (''File '' @ file_name @ '' retrieved successfully with identifier ''
                                                @ identifier @ ''.''))))"

text \<open>\<open>list_files\<close> first turns an identifier that is not a string into one with
  \<^verbatim>\<open>str\<close>; on a string, as here, that step does nothing. The second test is made only
  when the first answers yes.\<close>

definition tenant_missing :: "fs_state \<Rightarrow> string \<Rightarrow> (exn + string list) \<times> fs_state" where
  "tenant_missing st identifier =
     (Inl (FileNotFoundError (''Tenant '' @ identifier @ '' directory does not exist.'')),
      flog st WARNING (''Tenant '' @ identifier @ '' directory does not exist.''))"

definition LocalStorageService_list_files ::
  "path \<Rightarrow> fs_state \<Rightarrow> string \<Rightarrow> (exn + string list) \<times> fs_state" where
  "LocalStorageService_list_files data_dir st identifier =
     (let folder_path = path_join data_dir identifier
      in case path_exists st folder_path of
           Inl e \<Rightarrow> (Inl e, st)
         | Inr False \<Rightarrow> tenant_missing st identifier
         | Inr True \<Rightarrow>
             (case path_is_dir st folder_path of
                Inl e \<Rightarrow> (Inl e, st)
              | Inr False \<Rightarrow> tenant_missing st identifier
              | Inr True \<Rightarrow>
                  (case iterdir_files st folder_path of
                     Inl e \<Rightarrow> (Inl e, st)
                   | Inr files \<Rightarrow>
                       (Inr files, flog st INFO (''Listed '' @ show_nat (length files)
                                                  @ '' files with identifier '' @ identifier @ ''.'')))))"

definition LocalStorageService_delete_file ::
  "path \<Rightarrow> fs_state \<Rightarrow> string \<Rightarrow> string \<Rightarrow> (exn + unit) \<times> fs_state" where
  "LocalStorageService_delete_file data_dir st identifier file_name =
     (let file_path = path_join (path_join data_dir identifier) file_name
      in case path_exists st file_path of
           Inl e \<Rightarrow> (Inl e, st)
         | Inr True \<Rightarrow>
             (case unlink st file_path of
                (Inl e, st1) \<Rightarrow> (Inl e, st1)
              | (Inr u, st1) \<Rightarrow>
                  (Inr (), flog st1 INFO (''File '' @ file_name @ '' deleted successfully with identifier ''
                                           @ identifier @ ''.'')))
         | Inr False \<Rightarrow>
             (Inr (), flog st WARNING (''Attempted to delete non-existent file '' @ file_name
                                        @ '' with identifier '' @ identifier @ ''.'')))"

section \<open>Construction of a storage service (service.py, local.py, s3.py)\<close>

text \<open>
  The object under construction, \<^verbatim>\<open>self\<close>: an attribute that has not been assigned yet is
  \<open>None\<close>.
  The settings are the attribute \<^verbatim>\<open>config_dir\<close> and the optional attributes that
  \<^verbatim>\<open>getattr\<close> reads with a default, each a \<^verbatim>\<open>str\<close> or \<^verbatim>\<open>None\<close>. A constructor returns
  the states of the object after each of its assignments, in order, so that what holds
  during construction can be stated; the two log lines of the object-storage
  constructor touch no attribute and are not part of the states.
\<close>

record settings =
  config_dir :: string
  attributes :: "(string \<times> string option) list"

datatype s3_client = S3Client "(string \<times> string option) list"

record storage_service =
  ready :: bool
  self_settings_service :: "settings option"
  self_session_service :: "unit option"
  self_data_dir :: "path option"
  self_bucket :: "string option option"
  self_s3_client :: "s3_client option"

text \<open>Modelled from the spec: the class \<^verbatim>\<open>Service\<close> of \<^verbatim>\<open>langflow.services.base\<close>, which
  declares the readiness flag, is not among the sources; the flag is a marker "set true
  after successful construction", so a new object has it false.\<close>

definition Service_new :: storage_service where
  "Service_new =
     \<lparr>ready = False, self_settings_service = None, self_session_service = None, self_data_dir = None,
      self_bucket = None, self_s3_client = None\<rparr>"

definition set_ready :: "storage_service \<Rightarrow> storage_service" where
  "set_ready self = self\<lparr>ready := True\<rparr>"

definition StorageService_init :: "storage_service \<Rightarrow> settings \<Rightarrow> storage_service list" where
  "StorageService_init self st =
     (let s1 = self\<lparr>self_settings_service := Some st\<rparr>;
          s2 = s1\<lparr>self_session_service := Some ()\<rparr>;
          s3 = s2\<lparr>self_data_dir := Some (path_parts (config_dir st))\<rparr>;
          s4 = set_ready s3
      in [s1, s2, s3, s4])"

definition LocalStorageService_init :: "storage_service \<Rightarrow> settings \<Rightarrow> storage_service list" where
  "LocalStorageService_init self st =
     (let tr = StorageService_init self st
      in tr @ [set_ready (last tr)])"

definition getattr :: "settings \<Rightarrow> string \<Rightarrow> string option \<Rightarrow> string option" where
  "getattr st name dflt = (case map_of (attributes st) name of None \<Rightarrow> dflt | Some v \<Rightarrow> v)"

fun truthy :: "string option \<Rightarrow> bool" where
  "truthy None = False"
| "truthy (Some s) = (s \<noteq> [])"

text \<open>The two default names come from \<^verbatim>\<open>lfx.services.settings.constants\<close> and the client
  from \<^verbatim>\<open>boto3.client\<close>, which may raise; all three are parameters, with the process
  environment. The second component is the exception the constructor raises, if any.\<close>

definition S3StorageService_init ::
  "string \<Rightarrow> string \<Rightarrow> (string \<times> string) list
     \<Rightarrow> ((string \<times> string option) list \<Rightarrow> exn + s3_client)
     \<Rightarrow> storage_service \<Rightarrow> settings \<Rightarrow> storage_service list \<times> exn option" where
  "S3StorageService_init default_bucket_name default_region_name environ boto3_client self st =
     (let tr = StorageService_init self st;
          s5 = (last tr)\<lparr>self_bucket := Some (getattr st ''s3_bucket_name'' (Some default_bucket_name))\<rparr>;
          s3_region = getattr st ''s3_region_name'' (Some default_region_name);
          s3_access_key = getattr st ''s3_aws_access_key_id''
                            (map_of environ ''LANGFLOW_S3_AWS_ACCESS_KEY_ID'');
          s3_secret_key = getattr st ''s3_aws_secret_access_key''
                            (map_of environ ''LANGFLOW_S3_AWS_SECRET_ACCESS_KEY'');
          client_kwargs =
            (if truthy s3_access_key \<and> truthy s3_secret_key then
               [(''region_name'', s3_region), (''aws_access_key_id'', s3_access_key),
                (''aws_secret_access_key'', s3_secret_key)]
             else [(''region_name'', s3_region)])
      in case boto3_client client_kwargs of
           Inl e \<Rightarrow> (tr @ [s5], Some e)
         | Inr client \<Rightarrow>
             (let s6 = s5\<lparr>self_s3_client := Some client\<rparr>
              in (tr @ [s5, s6, set_ready s6], None)))"

text \<open>The flag along a sequence of states never goes from true to false.\<close>

fun one_way :: "storage_service list \<Rightarrow> bool" where
  "one_way (a # b # rest) = ((ready b \<or> \<not> ready a) \<and> one_way (b # rest))"
| "one_way rest = True"

section \<open>OutputValue (schema.py)\<close>















section \<open>Example states\<close>

definition example_world :: s3_world where
  "example_world =
     \<lparr>has_credentials = True, fault = None, buckets = [(''langflow'', [])], calls = [], s3_log = []\<rparr>"

text \<open>A disk that holds the data directory and the null device, with the limits of
  Linux.\<close>

definition example_disk :: fs_state where
  "example_disk =
     \<lparr>nodes = [([''data''], Dir), ([''dev''], Dir), ([''dev'', ''null''], Special [])], denied = [],
      name_max = 255, path_max = 4096, write_fault = None, fs_log = []\<rparr>"

definition example_settings :: settings where
  "example_settings = \<lparr>config_dir = ''/data'', attributes = [(''s3_bucket_name'', Some ''langflow'')]\<rparr>"

text \<open>A disk on which the directory of tenant \<open>t\<close> cannot be made: a regular file has
  its name.\<close>

definition blocked_disk :: fs_state where
  "blocked_disk =
     \<lparr>nodes = [([''data''], Dir), ([''data'', ''t''], File [])], denied = [],
      name_max = 255, path_max = 4096, write_fault = None, fs_log = []\<rparr>"

text \<open>A disk that holds a file of tenant \<open>t\<close>.\<close>

definition used_disk :: fs_state where
  "used_disk =
     \<lparr>nodes = [([''data''], Dir), ([''data'', ''t''], Dir), ([''data'', ''t'', ''f''], File [9, 9, 9])],
      denied = [], name_max = 255, path_max = 4096, write_fault = None, fs_log = []\<rparr>"

text \<open>A name of 300 bytes.\<close>

definition long_name :: string where
  "long_name = replicate 300 CHR ''a''"


section \<open>Facts about the provider and the object-storage operations\<close>

lemma called_simps:
  "calls (called w c) = calls w @ [c]" "buckets (called w c) = buckets w"
  "s3_log (called w c) = s3_log w" "has_credentials (called w c) = has_credentials w"
  "fault (called w c) = fault w"
  by (simp_all add: called_def)

lemma alog_simps:
  "calls (alog w l m) = calls w" "buckets (alog w l m) = buckets w"
  "s3_log (alog w l m) = s3_log w @ [(l, m)]" "has_credentials (alog w l m) = has_credentials w"
  "fault (alog w l m) = fault w"
  by (simp_all add: alog_def)

lemma request_alog: "request (alog w l m) b = request w b"
  by (simp add: request_def alog_def split: option.splits)

lemma save_file_bytes:
  "\<not> py_not identifier \<Longrightarrow> \<not> py_not file_name \<Longrightarrow>
   S3StorageService_save_file bkt w identifier file_name (DBytes body) =
     (case put_object w bkt (S3_build_path identifier file_name) body of
        (Inr u, w1) \<Rightarrow>
          (Inr (), alog w1 INFO (''File '' @ fmt file_name @ '' saved successfully in tenant ''
                                  @ fmt identifier @ ''.''))
      | (Inl e, w1) \<Rightarrow> save_file_except bkt identifier file_name e w1)"
  by (simp add: S3StorageService_save_file_def S3_build_path_def)

lemma save_file_except_fails: "fst (save_file_except bkt identifier file_name e w) \<noteq> Inr u"
  by (cases e) (simp_all add: Let_def)

lemma put_object_result:
  "put_object w b k body =
     (case request w b of
        Inl e \<Rightarrow> (Inl e, called w (PutObject b k body))
      | Inr objs \<Rightarrow>
          (Inr (), (called w (PutObject b k body))
                     \<lparr>buckets := AList.update b (AList.update k body objs) (buckets w)\<rparr>))"
  by (simp add: put_object_def Let_def)

lemma request_after_put:
  assumes "request w b = Inr objs"
  shows "request ((called w c)\<lparr>buckets := AList.update b objs' (buckets w)\<rparr>) b = Inr objs'"
  using assms by (auto simp: request_def called_simps update_conv' split: if_splits option.splits)

lemma S3_save_success:
  assumes "S3StorageService_save_file bkt w identifier file_name (DBytes body) = (Inr (), w')"
  shows "\<not> py_not identifier \<and> \<not> py_not file_name \<and>
         (\<exists>objs. request w bkt = Inr objs \<and>
            request w' bkt = Inr (AList.update (S3_build_path identifier file_name) body objs))"
proof -
  have n: "\<not> py_not identifier" "\<not> py_not file_name"
    using assms by (auto simp: S3StorageService_save_file_def)
  show ?thesis
  proof (cases "request w bkt")
    case (Inl e)
    with assms n save_file_except_fails [of _ _ _ e] show ?thesis
      by (auto simp: save_file_bytes put_object_result dest: arg_cong [where f = fst])
  next
    case (Inr objs)
    with assms n show ?thesis
      by (auto simp: save_file_bytes put_object_result request_alog request_after_put)
  qed
qed

lemma S3_get_present:
  assumes "\<not> py_not identifier" "\<not> py_not file_name" "request w bkt = Inr objs"
    "map_of objs (S3_build_path identifier file_name) = Some body"
  shows "fst (S3StorageService_get_file bkt w identifier file_name) = Inr body"
  using assms by (simp add: S3StorageService_get_file_def get_object_def Let_def S3_build_path_def)

lemma S3_roundtrip:
  assumes "S3StorageService_save_file bkt w identifier file_name (DBytes body) = (Inr (), w')"
  shows "fst (S3StorageService_get_file bkt w' identifier file_name) = Inr body"
proof -
  from S3_save_success [OF assms] obtain objs where
    n: "\<not> py_not identifier" "\<not> py_not file_name"
    and r: "request w' bkt = Inr (AList.update (S3_build_path identifier file_name) body objs)"
    by blast
  show ?thesis
    by (rule S3_get_present [OF n r]) (simp add: update_conv')
qed

lemma S3_get_absent:
  assumes "\<not> py_not identifier" "\<not> py_not file_name" "request w bkt = Inr objs"
    "map_of objs (S3_build_path identifier file_name) = None"
  shows "S3StorageService_get_file bkt w identifier file_name
           = (Inl (no_such_key (S3_build_path identifier file_name)),
              alog (called w (GetObject bkt (S3_build_path identifier file_name))) EXCEPTION
                (''Error retrieving file '' @ fmt file_name @ '' from tenant '' @ fmt identifier))"
  using assms
  by (simp add: S3StorageService_get_file_def get_object_def Let_def S3_build_path_def no_such_key_def)

lemma S3_delete_ok:
  assumes "\<not> py_not identifier" "\<not> py_not file_name" "request w bkt = Inr objs"
  shows "S3StorageService_delete_file bkt w identifier file_name
           = (Inr (),
              alog ((called w (DeleteObject bkt (S3_build_path identifier file_name)))
                      \<lparr>buckets := AList.update bkt (AList.delete (S3_build_path identifier file_name) objs)
                                   (buckets w)\<rparr>)
                INFO (''File '' @ fmt file_name @ '' deleted successfully from tenant ''
                       @ fmt identifier @ ''.''))"
  using assms
  by (simp add: S3StorageService_delete_file_def delete_object_def Let_def S3_build_path_def)

lemma update_same: "map_of al k = Some v \<Longrightarrow> AList.update k v al = al"
  by (induction al) auto

lemma S3_delete_absent:
  assumes "\<not> py_not identifier" "\<not> py_not file_name" "request w bkt = Inr objs"
    "map_of objs (S3_build_path identifier file_name) = None"
  shows "S3StorageService_delete_file bkt w identifier file_name
           = (Inr (),
              alog (called w (DeleteObject bkt (S3_build_path identifier file_name)))
                INFO (''File '' @ fmt file_name @ '' deleted successfully from tenant ''
                       @ fmt identifier @ ''.''))"
proof -
  have d: "AList.delete (S3_build_path identifier file_name) objs = objs"
    using assms(4) by (simp add: delete_id map_of_eq_None_iff)
  have m: "map_of (buckets w) bkt = Some objs"
    using assms(3) by (auto simp: request_def split: if_splits option.splits)
  have "(called w (DeleteObject bkt (S3_build_path identifier file_name)))
          \<lparr>buckets := AList.update bkt objs (buckets w)\<rparr>
        = called w (DeleteObject bkt (S3_build_path identifier file_name))"
    by (simp add: update_same [OF m] called_def)
  then show ?thesis
    by (simp add: S3_delete_ok [OF assms(1,2,3)] d)
qed

declare show_nat.simps [simp del]

lemma show_nat_0: "show_nat 0 = ''0''"
  by code_simp

lemma S3_list_empty:
  assumes "\<not> py_not identifier" "request w bkt = Inr objs"
    "filter (\<lambda>k. startswith k (''tenant-'' @ fmt identifier @ ''/'')) (map fst objs) = []"
  shows "S3StorageService_list_files bkt w identifier
           = (Inr [], alog (called w (ListObjectsV2 bkt (''tenant-'' @ fmt identifier @ ''/''))) INFO
                        (''0 files listed in tenant '' @ fmt identifier @ ''.''))"
  using assms
  by (simp add: S3StorageService_list_files_def list_objects_v2_def Let_def show_nat_0)

section \<open>The claims about the object-storage backend\<close>

text \<open>
  Claim C3. Each of \<open>save_file\<close>, \<open>get_file\<close>, \<open>list_files\<close>, \<open>get_file_size\<close> and
  \<open>delete_file\<close> of the object-storage backend, called with a missing identifier (absent
  or empty) or, where it takes one, a missing file name, raises \<^verbatim>\<open>ValueError\<close> and leaves
  the provider's state as it was: no request has been made. \<open>save_file\<close> does the same for
  absent data, and for data that is not bytes it raises \<^verbatim>\<open>ValueError\<close> or \<^verbatim>\<open>TypeError\<close>
  with no request made and no object stored. Both are InvalidInput errors.
\<close>

theorem S3_missing_arguments_rejected:
  "(py_not identifier \<or> py_not file_name \<or> data = DNone \<longrightarrow>
      S3StorageService_save_file bkt w identifier file_name data
        = (Inl (ValueError ''identifier, file_name, and data must be provided''), w))
   \<and> (data = DOther ty rendering \<longrightarrow>
        (\<exists>e. fst (S3StorageService_save_file bkt w identifier file_name data) = Inl e \<and> is_InvalidInput e)
        \<and> calls (snd (S3StorageService_save_file bkt w identifier file_name data)) = calls w
        \<and> buckets (snd (S3StorageService_save_file bkt w identifier file_name data)) = buckets w)
   \<and> (py_not identifier \<or> py_not file_name \<longrightarrow>
        S3StorageService_get_file bkt w identifier file_name
          = (Inl (ValueError ''identifier and file_name must be provided''), w)
        \<and> S3StorageService_get_file_size bkt w identifier file_name
          = (Inl (ValueError ''identifier and file_name must be provided''), w)
        \<and> S3StorageService_delete_file bkt w identifier file_name
          = (Inl (ValueError ''identifier and file_name must be provided''), w))
   \<and> (py_not identifier \<longrightarrow>
        S3StorageService_list_files bkt w identifier
          = (Inl (ValueError ''identifier must be provided''), w))
   \<and> is_InvalidInput (ValueError ''identifier, file_name, and data must be provided'')
   \<and> is_InvalidInput (ValueError ''identifier and file_name must be provided'')
   \<and> is_InvalidInput (ValueError ''identifier must be provided'')"
  by (auto simp: S3StorageService_save_file_def S3StorageService_get_file_def
        S3StorageService_get_file_size_def S3StorageService_delete_file_def
        S3StorageService_list_files_def alog_simps)

text \<open>The hypotheses of C3 at an absent identifier, a string passed as data, an empty
  file name and an empty identifier.\<close>

theorem S3_missing_arguments_rejected_witness:
  "S3StorageService_save_file ''langflow'' example_world None (Some ''f'') (DBytes [1])
     = (Inl (ValueError ''identifier, file_name, and data must be provided''), example_world)
   \<and> calls (snd (S3StorageService_save_file ''langflow'' example_world (Some ''t'') (Some ''f'')
                  (DOther ''<class str>'' ''abc''))) = []
   \<and> S3StorageService_delete_file ''langflow'' example_world (Some ''t'') (Some '''')
     = (Inl (ValueError ''identifier and file_name must be provided''), example_world)
   \<and> S3StorageService_list_files ''langflow'' example_world (Some '''')
     = (Inl (ValueError ''identifier must be provided''), example_world)"
  using S3_missing_arguments_rejected [of None "Some ''f''" "DBytes [1]" "''langflow''" example_world]
    S3_missing_arguments_rejected [of "Some ''t''" "Some ''f''" "DOther ''<class str>'' ''abc''"
      "''langflow''" example_world "''<class str>''" "''abc''"]
    S3_missing_arguments_rejected [of "Some ''t''" "Some ''''" "DBytes [1]" "''langflow''" example_world]
    S3_missing_arguments_rejected [of "Some ''''" "Some ''f''" "DBytes [1]" "''langflow''" example_world]
  by (simp add: example_world_def)

text \<open>
  Claim C7. When the put of \<open>save_file\<close> fails, \<^verbatim>\<open>NoCredentialsError\<close> is logged and
  raised again as it is; a \<^verbatim>\<open>ClientError\<close> whose code is \<^verbatim>\<open>NoSuchBucket\<close> is logged
  and raised as a \<^verbatim>\<open>RuntimeError\<close> caused by it, whose message contains the name of the
  configured bucket; a \<^verbatim>\<open>ClientError\<close> with any other code is logged with the file name,
  the identifier, the code and the message, and raised again unchanged.
\<close>

theorem save_file_provider_errors:
  assumes "\<not> py_not identifier" and "\<not> py_not file_name"
    and "put_object w bkt (S3_build_path identifier file_name) body = (Inl e, w1)"
  shows "(e = NoCredentialsError \<longrightarrow>
            S3StorageService_save_file bkt w identifier file_name (DBytes body)
              = (Inl NoCredentialsError, alog w1 EXCEPTION ''Credentials not available for AWS S3.''))
       \<and> (\<forall>resp str_e. e = ClientError resp str_e \<and> error_code_of resp = ''NoSuchBucket'' \<longrightarrow>
            S3StorageService_save_file bkt w identifier file_name (DBytes body)
              = (Inl (RuntimeError (bucket_missing_msg bkt) e),
                 alog w1 EXCEPTION (bucket_missing_msg bkt)))
       \<and> (\<forall>resp str_e. e = ClientError resp str_e \<and> error_code_of resp \<noteq> ''NoSuchBucket'' \<longrightarrow>
            S3StorageService_save_file bkt w identifier file_name (DBytes body)
              = (Inl e,
                 alog w1 EXCEPTION (''Error saving file '' @ fmt file_name @ '' in tenant ''
                                     @ fmt identifier @ '': '' @ error_code_of resp @ '' - ''
                                     @ error_message_of resp str_e)))
       \<and> (\<exists>before after. bucket_missing_msg bkt = before @ bkt @ after)"
proof -
  have named: "\<exists>before after. bucket_missing_msg bkt = before @ bkt @ after"
    unfolding bucket_missing_msg_def by (metis append.assoc)
  have eq: "S3StorageService_save_file bkt w identifier file_name (DBytes body)
              = save_file_except bkt identifier file_name e w1"
    by (simp add: save_file_bytes [OF assms(1,2)] assms(3))
  have c1: "e = NoCredentialsError \<longrightarrow>
            S3StorageService_save_file bkt w identifier file_name (DBytes body)
              = (Inl NoCredentialsError, alog w1 EXCEPTION ''Credentials not available for AWS S3.'')"
    unfolding eq by simp
  have c2: "\<forall>resp str_e. e = ClientError resp str_e \<and> error_code_of resp = ''NoSuchBucket'' \<longrightarrow>
            S3StorageService_save_file bkt w identifier file_name (DBytes body)
              = (Inl (RuntimeError (bucket_missing_msg bkt) e),
                 alog w1 EXCEPTION (bucket_missing_msg bkt))"
    unfolding eq by (simp add: Let_def)
  have c3: "\<forall>resp str_e. e = ClientError resp str_e \<and> error_code_of resp \<noteq> ''NoSuchBucket'' \<longrightarrow>
            S3StorageService_save_file bkt w identifier file_name (DBytes body)
              = (Inl e,
                 alog w1 EXCEPTION (''Error saving file '' @ fmt file_name @ '' in tenant ''
                                     @ fmt identifier @ '': '' @ error_code_of resp @ '' - ''
                                     @ error_message_of resp str_e))"
    unfolding eq by (simp add: Let_def)
  show ?thesis using c1 c2 c3 named by blast
qed

text \<open>The three causes of C7 on a provider without credentials, on a bucket that does
  not exist, and on a provider that denies access.\<close>

theorem save_file_provider_errors_witness:
  "S3StorageService_save_file ''langflow'' (example_world\<lparr>has_credentials := False\<rparr>)
       (Some ''t'') (Some ''f'') (DBytes [1])
     = (Inl NoCredentialsError,
        alog (called (example_world\<lparr>has_credentials := False\<rparr>) (PutObject ''langflow'' ''tenant-t/f'' [1]))
          EXCEPTION ''Credentials not available for AWS S3.'')
   \<and> fst (S3StorageService_save_file ''absent'' example_world (Some ''t'') (Some ''f'') (DBytes [1]))
     = Inl (RuntimeError (bucket_missing_msg ''absent'') no_such_bucket)
   \<and> fst (S3StorageService_save_file ''langflow''
            (example_world\<lparr>fault := Some (ClientError (Some [(''Code'', ''AccessDenied'')]) ''denied'')\<rparr>)
            (Some ''t'') (Some ''f'') (DBytes [1]))
     = Inl (ClientError (Some [(''Code'', ''AccessDenied'')]) ''denied'')"
proof -
  let ?w1 = "example_world\<lparr>has_credentials := False\<rparr>"
  let ?w3 = "example_world\<lparr>fault := Some (ClientError (Some [(''Code'', ''AccessDenied'')]) ''denied'')\<rparr>"
  have p1: "put_object ?w1 ''langflow'' (S3_build_path (Some ''t'') (Some ''f'')) [1]
              = (Inl NoCredentialsError, called ?w1 (PutObject ''langflow'' ''tenant-t/f'' [1]))"
    by (simp add: put_object_def request_def example_world_def S3_build_path_def)
  have p2: "put_object example_world ''absent'' (S3_build_path (Some ''t'') (Some ''f'')) [1]
              = (Inl no_such_bucket, called example_world (PutObject ''absent'' ''tenant-t/f'' [1]))"
    by (simp add: put_object_def request_def example_world_def S3_build_path_def)
  have p3: "put_object ?w3 ''langflow'' (S3_build_path (Some ''t'') (Some ''f'')) [1]
              = (Inl (ClientError (Some [(''Code'', ''AccessDenied'')]) ''denied''),
                 called ?w3 (PutObject ''langflow'' ''tenant-t/f'' [1]))"
    by (simp add: put_object_def request_def example_world_def S3_build_path_def)
  have n1: "\<not> py_not (Some ''t'')" and n2: "\<not> py_not (Some ''f'')" by simp_all
  show ?thesis
    using save_file_provider_errors [OF n1 n2 p1] save_file_provider_errors [OF n1 n2 p2]
      save_file_provider_errors [OF n1 n2 p3]
    by (simp add: no_such_bucket_def error_code_of_def)
qed

text \<open>
  Claim C10. With a present identifier and file name, \<open>save_file\<close> on the empty byte
  string makes the put request with the empty body; it succeeds, storing the empty
  object, whenever the provider accepts the request, and it fails only if the provider
  does. An empty identifier or an empty file name is rejected with \<^verbatim>\<open>ValueError\<close>.
\<close>

theorem save_file_accepts_empty_payload:
  assumes "\<not> py_not identifier" and "\<not> py_not file_name"
  shows "calls (snd (S3StorageService_save_file bkt w identifier file_name (DBytes [])))
           = calls w @ [PutObject bkt (S3_build_path identifier file_name) []]
       \<and> (\<forall>objs. request w bkt = Inr objs \<longrightarrow>
            fst (S3StorageService_save_file bkt w identifier file_name (DBytes [])) = Inr ()
            \<and> map_of (buckets (snd (S3StorageService_save_file bkt w identifier file_name (DBytes []))))
                bkt
              = Some (AList.update (S3_build_path identifier file_name) [] objs))
       \<and> (\<forall>e. fst (S3StorageService_save_file bkt w identifier file_name (DBytes [])) = Inl e \<longrightarrow>
            (\<exists>e'. request w bkt = Inl e'))
       \<and> S3StorageService_save_file bkt w (Some '''') file_name (DBytes [])
           = (Inl (ValueError ''identifier, file_name, and data must be provided''), w)
       \<and> S3StorageService_save_file bkt w identifier (Some '''') (DBytes [])
           = (Inl (ValueError ''identifier, file_name, and data must be provided''), w)"
proof -
  have calls_except: "calls (snd (save_file_except bkt identifier file_name e w1)) = calls w1" for e w1
    by (cases e) (simp_all add: alog_simps Let_def)
  have c1: "calls (snd (S3StorageService_save_file bkt w identifier file_name (DBytes [])))
           = calls w @ [PutObject bkt (S3_build_path identifier file_name) []]"
    by (simp add: save_file_bytes [OF assms] put_object_def Let_def alog_simps called_simps calls_except
        split: sum.splits)
  have c2: "fst (S3StorageService_save_file bkt w identifier file_name (DBytes [])) = Inr ()
            \<and> map_of (buckets (snd (S3StorageService_save_file bkt w identifier file_name (DBytes []))))
                bkt
              = Some (AList.update (S3_build_path identifier file_name) [] objs)"
    if "request w bkt = Inr objs" for objs
    using that by (simp add: save_file_bytes [OF assms] put_object_def Let_def alog_simps called_simps
        update_conv')
  have c3: "\<exists>e'. request w bkt = Inl e'"
    if "fst (S3StorageService_save_file bkt w identifier file_name (DBytes [])) = Inl e" for e
    using that by (cases "request w bkt")
      (simp_all add: save_file_bytes [OF assms] put_object_def Let_def)
  have c4: "S3StorageService_save_file bkt w (Some '''') file_name (DBytes [])
           = (Inl (ValueError ''identifier, file_name, and data must be provided''), w)"
       "S3StorageService_save_file bkt w identifier (Some '''') (DBytes [])
           = (Inl (ValueError ''identifier, file_name, and data must be provided''), w)"
    by (simp_all add: S3StorageService_save_file_def)
  show ?thesis using c1 c2 c3 c4 by blast
qed

text \<open>C10 on a provider that holds the bucket: the empty object is stored.\<close>

theorem save_file_accepts_empty_payload_witness:
  "S3StorageService_save_file ''langflow'' example_world (Some ''t'') (Some ''f'') (DBytes [])
     = (Inr (),
        \<lparr>has_credentials = True, fault = None, buckets = [(''langflow'', [(''tenant-t/f'', [])])],
         calls = [PutObject ''langflow'' ''tenant-t/f'' []],
         s3_log = [(INFO, ''File f saved successfully in tenant t.'')]\<rparr>)"
proof -
  have n1: "\<not> py_not (Some ''t'')" and n2: "\<not> py_not (Some ''f'')" by simp_all
  have r: "request example_world ''langflow'' = Inr []"
    by (simp add: request_def example_world_def)
  have log: "s3_log (snd (S3StorageService_save_file ''langflow'' example_world (Some ''t'') (Some ''f'') (DBytes [])))
      = [(INFO, ''File f saved successfully in tenant t.'')]"
     and rest: "has_credentials (snd (S3StorageService_save_file ''langflow'' example_world (Some ''t'') (Some ''f'') (DBytes [])))"
      "fault (snd (S3StorageService_save_file ''langflow'' example_world (Some ''t'') (Some ''f'') (DBytes []))) = None"
      "buckets (snd (S3StorageService_save_file ''langflow'' example_world (Some ''t'') (Some ''f'') (DBytes []))) = [(''langflow'', [(''tenant-t/f'', [])])]"
    by (simp_all add: save_file_bytes put_object_def r alog_simps called_simps) (simp_all add: example_world_def S3_build_path_def)
  show ?thesis
    using save_file_accepts_empty_payload [OF n1 n2, of "''langflow''" example_world] r log rest
    by (cases "S3StorageService_save_file ''langflow'' example_world (Some ''t'') (Some ''f'') (DBytes [])")
       (auto simp: example_world_def)
qed


section \<open>Facts about the file system and the local operations\<close>

lemma flog_simps:
  "nodes (flog st l m) = nodes st" "denied (flog st l m) = denied st"
  "name_max (flog st l m) = name_max st" "path_max (flog st l m) = path_max st"
  "write_fault (flog st l m) = write_fault st" "fs_log (flog st l m) = fs_log st @ [(l, m)]"
  by (simp_all add: flog_def)

lemma node_at_update:
  "node_at (AList.update q n ns) p = (if p = [] then Some Dir else if p = q then Some n else node_at ns p)"
  by (simp add: node_at_def update_conv')

lemma walk_keeps:
  assumes env: "denied st' = denied st" "name_max st' = name_max st"
    and dirs: "\<And>p. node_at (nodes st) p = Some Dir \<Longrightarrow> node_at (nodes st') p = Some Dir"
  shows "walk st cur cs = Inr q \<Longrightarrow> walk st' cur cs = Inr q"
proof (induction cs arbitrary: cur)
  case Nil
  then show ?case by simp
next
  case (Cons c cs)
  from Cons.prems have d: "node_at (nodes st) cur = Some Dir"
    by (auto split: option.splits node.splits)
  from Cons.prems d have f: "\<not> forbidden st cur Search" "\<not> name_max st < length c"
    by (auto split: if_splits)
  from Cons.prems d f have "walk st (if c = ''..'' then butlast cur else cur @ [c]) cs = Inr q"
    by simp
  then have "walk st' (if c = ''..'' then butlast cur else cur @ [c]) cs = Inr q"
    by (rule Cons.IH)
  with dirs [OF d] f env show ?case by (simp add: forbidden_def)
qed

lemma resolve_keeps:
  assumes "denied st' = denied st" "name_max st' = name_max st" "path_max st' = path_max st"
    and "\<And>p. node_at (nodes st) p = Some Dir \<Longrightarrow> node_at (nodes st') p = Some Dir"
    and "resolve st p = Inr q"
  shows "resolve st' p = Inr q"
proof -
  have r: "refused st' p = refused st p"
    by (simp add: refused_def assms(3))
  from assms(5) have n: "refused st p = None" and w: "walk st [] p = Inr q"
    by (auto simp: resolve_def split: option.splits)
  from walk_keeps [OF assms(1,2,4) w] show ?thesis
    by (simp add: resolve_def r n)
qed

lemma resolve_flog: "resolve (flog st l m) p = resolve st p"
proof -
  have "walk (flog st l m) cur cs = walk st cur cs" for cur cs
    by (induction cs arbitrary: cur)
       (simp_all add: flog_simps forbidden_def split: option.splits node.splits)
  then show ?thesis
    by (simp add: resolve_def refused_def flog_simps)
qed

lemma path_exists_flog: "path_exists (flog st l m) p = path_exists st p"
  by (simp add: path_exists_def resolve_flog flog_simps split: sum.splits)

lemma open_rb_read_flog: "open_rb_read (flog st l m) p = open_rb_read st p"
  by (simp add: open_rb_read_def resolve_flog flog_simps forbidden_def
      split: sum.splits option.splits node.splits)

lemma mkdir_parents_frame:
  "mkdir_parents st cur cs = (r, st1) \<Longrightarrow>
     denied st1 = denied st \<and> name_max st1 = name_max st \<and> path_max st1 = path_max st
     \<and> write_fault st1 = write_fault st \<and> fs_log st1 = fs_log st
     \<and> (\<forall>p n. node_at (nodes st) p = Some n \<longrightarrow> node_at (nodes st1) p = Some n)"
proof (induction st cur cs arbitrary: r st1 rule: mkdir_parents.induct)
  case (1 st cur)
  then show ?case by simp
next
  case (2 st cur c cs)
  show ?case
  proof (cases "node_at (nodes st) cur = Some Dir \<and> \<not> forbidden st cur Search
                 \<and> \<not> name_max st < length c")
    case False
    with "2.prems" show ?thesis
      by (auto split: option.splits node.splits if_splits)
  next
    case go: True
    then have g1: "node_at (nodes st) cur = Some Dir" and g2: "\<not> forbidden st cur Search"
      and g3: "\<not> name_max st < length c" by simp_all
    show ?thesis
    proof (cases "c = ''..''")
      case True
      with go "2.prems" have run: "mkdir_parents st (butlast cur) cs = (r, st1)" by simp
      from "2.IH"(1) [OF g1 refl g2 g3 True run] show ?thesis .
    next
      case nd: False
      show ?thesis
      proof (cases "node_at (nodes st) (cur @ [c])")
        case None
        show ?thesis
        proof (cases "forbidden st cur Write")
          case True
          with go nd None "2.prems" show ?thesis by simp
        next
          case False
          let ?st = "st\<lparr>nodes := AList.update (cur @ [c]) Dir (nodes st)\<rparr>"
          from go nd None False "2.prems" have run: "mkdir_parents ?st (cur @ [c]) cs = (r, st1)"
            by simp
          from "2.IH"(2) [OF g1 refl g2 g3 nd None False run]
          have ih: "denied st1 = denied ?st \<and> name_max st1 = name_max ?st \<and> path_max st1 = path_max ?st
             \<and> write_fault st1 = write_fault ?st \<and> fs_log st1 = fs_log ?st
             \<and> (\<forall>p n. node_at (nodes ?st) p = Some n \<longrightarrow> node_at (nodes st1) p = Some n)"
            by simp
          have "node_at (nodes ?st) p = Some n" if "node_at (nodes st) p = Some n" for p n
            using that None by (auto simp: node_at_update) (simp_all add: node_at_def)
          with ih show ?thesis by simp
        qed
      next
        case (Some nd')
        show ?thesis
        proof (cases nd')
          case Dir
          with go nd Some "2.prems" have run: "mkdir_parents st (cur @ [c]) cs = (r, st1)" by simp
          from Some Dir have sd: "node_at (nodes st) (cur @ [c]) = Some Dir" by simp
          from "2.IH"(3) [OF g1 refl g2 g3 nd sd refl run] show ?thesis .
        next
          case (File x)
          with go nd Some "2.prems" show ?thesis by simp
        next
          case (Special x)
          with go nd Some "2.prems" show ?thesis by simp
        qed
      qed
    qed
  qed
qed

lemma mkdir_parents_again:
  assumes env: "denied st' = denied st1" "name_max st' = name_max st1"
    and dirs: "\<And>p. node_at (nodes st1) p = Some Dir \<Longrightarrow> node_at (nodes st') p = Some Dir"
  shows "mkdir_parents st cur cs = (Inr (), st1) \<Longrightarrow> mkdir_parents st' cur cs = (Inr (), st')"
proof (induction st cur cs rule: mkdir_parents.induct)
  case (1 st cur)
  then show ?case by simp
next
  case (2 st cur c cs)
  note run = "2.prems"
  note fr = mkdir_parents_frame [OF run]
  from run have g1: "node_at (nodes st) cur = Some Dir"
    by (auto split: option.splits node.splits)
  from run g1 have g2: "\<not> forbidden st cur Search" and g3: "\<not> name_max st < length c"
    by (auto split: if_splits)
  from fr g1 have "node_at (nodes st1) cur = Some Dir" by blast
  then have h1: "node_at (nodes st') cur = Some Dir" by (rule dirs)
  from g2 fr env have h2: "\<not> forbidden st' cur Search" by (simp add: forbidden_def)
  from g3 fr env have h3: "\<not> name_max st' < length c" by simp
  show ?case
  proof (cases "c = ''..''")
    case True
    with run g1 g2 g3 have r: "mkdir_parents st (butlast cur) cs = (Inr (), st1)" by simp
    from "2.IH"(1) [OF g1 refl g2 g3 True r] h1 h2 h3 True show ?thesis by simp
  next
    case nd: False
    show ?thesis
    proof (cases "node_at (nodes st) (cur @ [c])")
      case None
      from run g1 g2 g3 nd None have w: "\<not> forbidden st cur Write"
        by (auto split: if_splits)
      let ?st = "st\<lparr>nodes := AList.update (cur @ [c]) Dir (nodes st)\<rparr>"
      from run g1 g2 g3 nd None w have r: "mkdir_parents ?st (cur @ [c]) cs = (Inr (), st1)"
        by simp
      have "node_at (nodes ?st) (cur @ [c]) = Some Dir"
        by (simp add: node_at_update)
      with mkdir_parents_frame [OF r] have "node_at (nodes st1) (cur @ [c]) = Some Dir" by blast
      then have d: "node_at (nodes st') (cur @ [c]) = Some Dir" by (rule dirs)
      from "2.IH"(2) [OF g1 refl g2 g3 nd None w r] h1 h2 h3 nd d show ?thesis by simp
    next
      case (Some n)
      with run g1 g2 g3 nd have n: "n = Dir"
        by (cases n) (auto split: if_splits)
      with Some have sd: "node_at (nodes st) (cur @ [c]) = Some Dir" by simp
      with run g1 g2 g3 nd have r: "mkdir_parents st (cur @ [c]) cs = (Inr (), st1)" by simp
      from fr sd have "node_at (nodes st1) (cur @ [c]) = Some Dir" by blast
      then have d: "node_at (nodes st') (cur @ [c]) = Some Dir" by (rule dirs)
      from "2.IH"(3) [OF g1 refl g2 g3 nd sd refl r] h1 h2 h3 nd d show ?thesis by simp
    qed
  qed
qed

lemma mkdir_frame:
  assumes "mkdir st p = (r, st1)"
  shows "denied st1 = denied st \<and> name_max st1 = name_max st \<and> path_max st1 = path_max st
     \<and> write_fault st1 = write_fault st \<and> fs_log st1 = fs_log st
     \<and> (\<forall>q n. node_at (nodes st) q = Some n \<longrightarrow> node_at (nodes st1) q = Some n)"
proof (cases "refused st p")
  case None
  with assms have "mkdir_parents st [] p = (r, st1)" by (simp add: mkdir_def)
  from mkdir_parents_frame [OF this] show ?thesis .
next
  case (Some e)
  with assms show ?thesis by (auto simp: mkdir_def)
qed

lemma mkdir_again:
  assumes run: "mkdir st p = (Inr (), st1)"
    and env: "denied st' = denied st1" "name_max st' = name_max st1" "path_max st' = path_max st1"
    and dirs: "\<And>q. node_at (nodes st1) q = Some Dir \<Longrightarrow> node_at (nodes st') q = Some Dir"
  shows "mkdir st' p = (Inr (), st')"
proof -
  from run have n: "refused st p = None" and r: "mkdir_parents st [] p = (Inr (), st1)"
    by (auto simp: mkdir_def split: option.splits)
  from mkdir_frame [OF run] env have "refused st' p = refused st p"
    by (simp add: refused_def)
  with n mkdir_parents_again [OF env(1,2) dirs r] show ?thesis
    by (simp add: mkdir_def)
qed

lemma open_wb_write_regular:
  assumes r: "resolve st p = Inr q" and t: "regular_target st q" and f: "write_fault st = None"
  shows "open_wb_write st p data = (Inr (), st\<lparr>nodes := AList.update q (File data) (nodes st)\<rparr>)"
  using t
  by (auto simp: open_wb_write_def r f regular_target_def write_bytes_def
      split: option.splits node.splits)

lemma regular_target_not_Dir: "regular_target st q \<Longrightarrow> node_at (nodes st) q \<noteq> Some Dir"
  by (auto simp: regular_target_def)

text \<open>What a successful save leaves, and what a read then finds.\<close>

lemma Local_save_regular:
  assumes m: "mkdir st (path_join dd identifier) = (Inr (), st1)"
    and r: "resolve st1 (LocalStorageService_build_full_path dd identifier file_name) = Inr q"
    and t: "regular_target st1 q" and f: "write_fault st1 = None"
  shows "LocalStorageService_save_file dd st identifier file_name data
           = (Inr (), flog (st1\<lparr>nodes := AList.update q (File data) (nodes st1)\<rparr>) INFO
                        (''File '' @ file_name @ '' saved successfully with identifier ''
                          @ identifier @ ''.''))"
  using open_wb_write_regular [OF r [unfolded LocalStorageService_build_full_path_def] t f, of data]
  by (simp add: LocalStorageService_save_file_def Let_def m)

lemma Local_get_regular:
  assumes r: "resolve st (LocalStorageService_build_full_path dd identifier file_name) = Inr q"
    and n: "node_at (nodes st) q = Some (File data)" and rd: "\<not> forbidden st q Read"
  shows "LocalStorageService_get_file dd st identifier file_name
           = (Inr data, flog st DEBUG (''File '' @ file_name @ '' retrieved successfully with identifier ''
                                        @ identifier @ ''.''))"
  using r n rd
  by (simp add: LocalStorageService_get_file_def LocalStorageService_build_full_path_def Let_def
      path_exists_def open_rb_read_def)

lemma Local_roundtrip:
  assumes m: "mkdir st (path_join dd identifier) = (Inr (), st1)"
    and r: "resolve st1 (LocalStorageService_build_full_path dd identifier file_name) = Inr q"
    and t: "regular_target st1 q" and f: "write_fault st1 = None"
  shows "fst (LocalStorageService_save_file dd st identifier file_name data) = Inr ()
       \<and> fst (LocalStorageService_get_file dd
               (snd (LocalStorageService_save_file dd st identifier file_name data))
               identifier file_name) = Inr data"
proof -
  let ?st2 = "st1\<lparr>nodes := AList.update q (File data) (nodes st1)\<rparr>"
  let ?st' = "flog ?st2 INFO (''File '' @ file_name @ '' saved successfully with identifier ''
                          @ identifier @ ''.'')"
  note s = Local_save_regular [OF m r t f, of data]
  from regular_target_not_Dir [OF t] have q: "q \<noteq> []" by (auto simp: node_at_def)
  have keep: "node_at (nodes ?st2) p = Some Dir" if "node_at (nodes st1) p = Some Dir" for p
    using that regular_target_not_Dir [OF t] by (auto simp: node_at_update)
  have "resolve ?st2 (LocalStorageService_build_full_path dd identifier file_name) = Inr q"
    by (rule resolve_keeps [OF _ _ _ keep r]) simp_all
  then have r': "resolve ?st' (LocalStorageService_build_full_path dd identifier file_name) = Inr q"
    by (simp add: resolve_flog)
  have n: "node_at (nodes ?st') q = Some (File data)"
    using q by (simp add: flog_simps node_at_update)
  have rd: "\<not> forbidden ?st' q Read"
    using t by (simp add: regular_target_def forbidden_def flog_simps)
  from Local_get_regular [OF r' n rd] s show ?thesis by simp
qed

lemma Local_two_saves:
  assumes m: "mkdir st (path_join dd identifier) = (Inr (), st1)"
    and r: "resolve st1 (LocalStorageService_build_full_path dd identifier file_name) = Inr q"
    and t: "regular_target st1 q" and f: "write_fault st1 = None"
  shows "fst (LocalStorageService_save_file dd
               (snd (LocalStorageService_save_file dd st identifier file_name data))
               identifier file_name data2) = Inr ()
       \<and> fst (LocalStorageService_get_file dd
               (snd (LocalStorageService_save_file dd
                  (snd (LocalStorageService_save_file dd st identifier file_name data))
                  identifier file_name data2))
               identifier file_name) = Inr data2"
proof -
  let ?st2 = "st1\<lparr>nodes := AList.update q (File data) (nodes st1)\<rparr>"
  let ?st' = "flog ?st2 INFO (''File '' @ file_name @ '' saved successfully with identifier ''
                          @ identifier @ ''.'')"
  have s: "snd (LocalStorageService_save_file dd st identifier file_name data) = ?st'"
    by (simp add: Local_save_regular [OF m r t f])
  from regular_target_not_Dir [OF t] have q: "q \<noteq> []" by (auto simp: node_at_def)
  have keep: "node_at (nodes ?st') p = Some Dir" if "node_at (nodes st1) p = Some Dir" for p
    using that regular_target_not_Dir [OF t] by (auto simp: node_at_update flog_simps)
  have m': "mkdir ?st' (path_join dd identifier) = (Inr (), ?st')"
    by (rule mkdir_again [OF m _ _ _ keep]) (simp_all add: flog_simps)
  have r': "resolve ?st' (LocalStorageService_build_full_path dd identifier file_name) = Inr q"
    by (rule resolve_keeps [OF _ _ _ keep r]) (simp_all add: flog_simps)
  have t': "regular_target ?st' q"
    using t q by (simp add: regular_target_def forbidden_def flog_simps node_at_update)
  have f': "write_fault ?st' = None"
    using f by (simp add: flog_simps)
  from Local_roundtrip [OF m' r' t' f', of data2] show ?thesis
    unfolding s .
qed

lemma S3_save_ok:
  assumes "\<not> py_not identifier" "\<not> py_not file_name" "request w bkt = Inr objs"
  shows "fst (S3StorageService_save_file bkt w identifier file_name (DBytes body)) = Inr ()
       \<and> request (snd (S3StorageService_save_file bkt w identifier file_name (DBytes body))) bkt
           = Inr (AList.update (S3_build_path identifier file_name) body objs)"
  using assms
  by (simp add: save_file_bytes put_object_result request_alog request_after_put)

lemma S3_save_then_get:
  assumes n: "\<not> py_not identifier" "\<not> py_not file_name" and r: "request w bkt = Inr objs"
  shows "fst (S3StorageService_save_file bkt w identifier file_name (DBytes body)) = Inr ()
       \<and> fst (S3StorageService_get_file bkt
               (snd (S3StorageService_save_file bkt w identifier file_name (DBytes body)))
               identifier file_name) = Inr body"
proof -
  from S3_save_ok [OF n r, of body] have
    a: "fst (S3StorageService_save_file bkt w identifier file_name (DBytes body)) = Inr ()"
    and b: "request (snd (S3StorageService_save_file bkt w identifier file_name (DBytes body))) bkt
           = Inr (AList.update (S3_build_path identifier file_name) body objs)"
    by simp_all
  have "fst (S3StorageService_get_file bkt
               (snd (S3StorageService_save_file bkt w identifier file_name (DBytes body)))
               identifier file_name) = Inr body"
    by (rule S3_get_present [OF n b]) (simp add: update_conv')
  with a show ?thesis by simp
qed

lemma mkdir_log: "fs_log (snd (mkdir st p)) = fs_log st"
  using mkdir_frame [of st p "fst (mkdir st p)" "snd (mkdir st p)"] by simp

lemma open_wb_write_log: "fs_log (snd (open_wb_write st p data)) = fs_log st"
  by (auto simp: open_wb_write_def write_bytes_def split: sum.splits option.splits node.splits)


section \<open>Facts about the example states\<close>

lemmas fs_eval = path_join_def path_parts_def node_at_def forbidden_def resolve_def refused_def
  has_nul_def path_len_def mkdir_def

lemma split_sep_plain: "CHR ''/'' \<notin> set s \<Longrightarrow> split_sep s = [s]"
  by (induction s) auto

lemma long_name_set: "set long_name = {CHR ''a''}" "length long_name = 300"
  by (simp_all add: long_name_def)

lemma long_name_differs: "long_name \<noteq> x" if "length x < 300" for x
  using that long_name_set(2) by auto

lemma long_name_not_short: "long_name \<noteq> []" "long_name \<noteq> ''.''" "long_name \<noteq> ''..''"
  by (rule long_name_differs, simp)+

lemma long_name_split: "split_sep long_name = [long_name]"
  by (rule split_sep_plain) (simp add: long_name_set)

lemma long_name_parts: "path_parts long_name = [long_name]"
  by (simp add: path_parts_def long_name_split long_name_not_short)

lemma long_name_relative: "take 1 long_name \<noteq> ''/''"
proof
  assume "take 1 long_name = ''/''"
  then have "CHR ''/'' \<in> set (take 1 long_name)" by simp
  then have "CHR ''/'' \<in> set long_name" by (rule in_set_takeD)
  then show False by (simp add: long_name_set)
qed

lemma long_name_no_nul: "CHR 0x00 \<notin> set long_name"
  by (simp add: long_name_set)

lemmas long_name_facts = long_name_parts long_name_relative long_name_set(2) long_name_no_nul
  long_name_not_short(3)

lemma used_mkdir: "mkdir used_disk (path_join [''data''] ''t'') = (Inr (), used_disk)"
  by (simp add: used_disk_def fs_eval)

lemma used_resolve:
  "resolve used_disk (LocalStorageService_build_full_path [''data''] ''t'' ''f'') = Inr [''data'', ''t'', ''f'']"
  by (simp add: used_disk_def LocalStorageService_build_full_path_def fs_eval)

lemma used_target: "regular_target used_disk [''data'', ''t'', ''f''] \<and> write_fault used_disk = None"
  by (simp add: used_disk_def regular_target_def fs_eval)

lemma example_request: "request example_world ''langflow'' = Inr []"
  by (simp add: request_def example_world_def)

lemma device_save:
  "LocalStorageService_save_file [''data''] example_disk ''t'' ''/dev/null'' [1]
     = (Inr (),
        \<lparr>nodes = [([''data''], Dir), ([''dev''], Dir), ([''dev'', ''null''], Special []),
                  ([''data'', ''t''], Dir)], denied = [],
         name_max = 255, path_max = 4096, write_fault = None,
         fs_log = [(INFO, ''File /dev/null saved successfully with identifier t.'')]\<rparr>)"
  by (simp add: LocalStorageService_save_file_def example_disk_def fs_eval open_wb_write_def flog_def
      Let_def)

lemma device_get:
  "fst (LocalStorageService_get_file [''data'']
        \<lparr>nodes = [([''data''], Dir), ([''dev''], Dir), ([''dev'', ''null''], Special []),
                  ([''data'', ''t''], Dir)], denied = [],
         name_max = 255, path_max = 4096, write_fault = None,
         fs_log = [(INFO, ''File /dev/null saved successfully with identifier t.'')]\<rparr>
        ''t'' ''/dev/null'') = Inr []"
  by (simp add: LocalStorageService_get_file_def fs_eval path_exists_def open_rb_read_def flog_def Let_def)

lemma empty_name_save:
  "fst (LocalStorageService_save_file [''data''] example_disk ''t'' '''' [1]) = Inl IsADirectoryError"
  by (simp add: LocalStorageService_save_file_def example_disk_def fs_eval open_wb_write_def flog_def
      Let_def)

lemma root_get:
  "LocalStorageService_get_file [''data''] example_disk '''' '''' = (Inl IsADirectoryError, example_disk)"
  by (simp add: LocalStorageService_get_file_def example_disk_def fs_eval path_exists_def
      open_rb_read_def Let_def)

lemma root_delete:
  "LocalStorageService_delete_file [''data''] example_disk '''' '''' = (Inl IsADirectoryError, example_disk)"
  by (simp add: LocalStorageService_delete_file_def example_disk_def fs_eval path_exists_def
      unlink_def Let_def)

lemmas fs_eval' = path_join_def node_at_def forbidden_def resolve_def refused_def
  has_nul_def path_len_def mkdir_def

lemma path_parts_t: "path_parts ''t'' = [''t'']"
  by (simp add: path_parts_def)

lemma long_tenant_exists:
  "path_exists example_disk (path_join [''data''] long_name) = Inl (OSError 36)"
  by (simp add: path_exists_def example_disk_def fs_eval' long_name_facts)

lemma long_file_exists:
  "path_exists used_disk (LocalStorageService_build_full_path [''data''] ''t'' long_name) = Inl (OSError 36)"
  by (simp add: path_exists_def used_disk_def LocalStorageService_build_full_path_def fs_eval'
      long_name_facts path_parts_t)

lemma missing_tenant: "path_exists example_disk (path_join [''data''] ''t'') = Inr False"
  by (simp add: path_exists_def example_disk_def fs_eval)

lemma file_tenant:
  "path_exists blocked_disk (path_join [''data''] ''t'') = Inr True
   \<and> path_is_dir blocked_disk (path_join [''data''] ''t'') = Inr False"
  by (simp add: path_exists_def path_is_dir_def blocked_disk_def fs_eval)

lemma missing_file:
  "path_exists example_disk (LocalStorageService_build_full_path [''data''] ''t'' ''f'') = Inr False"
  by (simp add: path_exists_def example_disk_def LocalStorageService_build_full_path_def fs_eval)

lemma no_credentials_request:
  "request (example_world\<lparr>has_credentials := False\<rparr>) ''langflow'' = Inl NoCredentialsError"
  by (simp add: request_def example_world_def)

lemma blocked_save:
  "fst (LocalStorageService_save_file [''data''] blocked_disk ''t'' ''f'' [1]) = Inl FileExistsError"
  by (simp add: LocalStorageService_save_file_def blocked_disk_def fs_eval Let_def)

lemma long_name_save:
  "fst (LocalStorageService_save_file [''data''] used_disk ''t'' long_name [1]) = Inl (OSError 36)"
  by (simp add: LocalStorageService_save_file_def used_disk_def fs_eval' open_wb_write_def
      long_name_facts path_parts_t flog_def Let_def)

lemma write_denied_save:
  "fst (LocalStorageService_save_file [''data'']
          (used_disk\<lparr>denied := [([''data'', ''t'', ''f''], Write)]\<rparr>) ''t'' ''f'' [1])
     = Inl PermissionError"
  by (simp add: LocalStorageService_save_file_def used_disk_def fs_eval open_wb_write_def flog_def
      Let_def)

lemma read_denied_save:
  "LocalStorageService_save_file [''data'']
          (used_disk\<lparr>denied := [([''data'', ''t'', ''f''], Read)]\<rparr>) ''t'' ''f'' [1]
     = (Inr (),
        \<lparr>nodes = [([''data''], Dir), ([''data'', ''t''], Dir), ([''data'', ''t'', ''f''], File [1])],
         denied = [([''data'', ''t'', ''f''], Read)], name_max = 255, path_max = 4096,
         write_fault = None,
         fs_log = [(INFO, ''File f saved successfully with identifier t.'')]\<rparr>)"
  by (simp add: LocalStorageService_save_file_def used_disk_def fs_eval open_wb_write_def
      write_bytes_def flog_def Let_def)

lemma read_denied_get:
  "fst (LocalStorageService_get_file [''data'']
        \<lparr>nodes = [([''data''], Dir), ([''data'', ''t''], Dir), ([''data'', ''t'', ''f''], File [1])],
         denied = [([''data'', ''t'', ''f''], Read)], name_max = 255, path_max = 4096,
         write_fault = None,
         fs_log = [(INFO, ''File f saved successfully with identifier t.'')]\<rparr>
        ''t'' ''f'') = Inl PermissionError"
  by (simp add: LocalStorageService_get_file_def fs_eval path_exists_def open_rb_read_def flog_def Let_def)

lemma full_disk_save:
  "fst (LocalStorageService_save_file [''data''] (used_disk\<lparr>write_fault := Some (OSError 28)\<rparr>)
          ''t'' ''f'' [1]) = Inl (OSError 28)"
  by (simp add: LocalStorageService_save_file_def used_disk_def fs_eval open_wb_write_def
      write_bytes_def flog_def Let_def)


section \<open>The claims about both backends\<close>

text \<open>
  Claim C1 says that, for every identifier, file name and payload, \<open>save_file\<close> followed
  by \<open>get_file\<close> on the same pair returns the bytes written. It does not for every pair,
  nor on every store. The object-storage backend rejects an empty identifier in both
  operations and an empty file name, by its guard, and cannot save to a bucket that does
  not exist. On the local backend an empty file name addresses the directory of the
  tenant, which cannot be written as a file, and the file name \<^verbatim>\<open>/dev/null\<close> addresses
  the null device, where the save returns and the read yields no bytes; the save fails
  where a regular file has the name of the tenant's directory, for a file name of 300
  bytes, for a file that may not be written, and on a full disk; and a file that may be
  written but not read is saved and cannot be read back.
\<close>

theorem save_file_then_get_file_counterexample:
  "S3StorageService_save_file ''langflow'' example_world (Some '''') (Some ''f'') (DBytes [1])
     = (Inl (ValueError ''identifier, file_name, and data must be provided''), example_world)
   \<and> S3StorageService_get_file ''langflow'' example_world (Some '''') (Some ''f'')
     = (Inl (ValueError ''identifier and file_name must be provided''), example_world)
   \<and> S3StorageService_save_file ''langflow'' example_world (Some ''t'') (Some '''') (DBytes [1])
     = (Inl (ValueError ''identifier, file_name, and data must be provided''), example_world)
   \<and> fst (S3StorageService_save_file ''absent'' example_world (Some ''t'') (Some ''f'') (DBytes [1]))
     = Inl (RuntimeError (bucket_missing_msg ''absent'') no_such_bucket)
   \<and> fst (LocalStorageService_save_file [''data''] example_disk ''t'' '''' [1]) = Inl IsADirectoryError
   \<and> fst (LocalStorageService_save_file [''data''] example_disk ''t'' ''/dev/null'' [1]) = Inr ()
   \<and> fst (LocalStorageService_get_file [''data'']
            (snd (LocalStorageService_save_file [''data''] example_disk ''t'' ''/dev/null'' [1]))
            ''t'' ''/dev/null'') = Inr []
   \<and> fst (LocalStorageService_save_file [''data''] blocked_disk ''t'' ''f'' [1]) = Inl FileExistsError
   \<and> fst (LocalStorageService_save_file [''data''] used_disk ''t'' long_name [1]) = Inl (OSError 36)
   \<and> fst (LocalStorageService_save_file [''data'']
            (used_disk\<lparr>denied := [([''data'', ''t'', ''f''], Write)]\<rparr>) ''t'' ''f'' [1])
     = Inl PermissionError
   \<and> fst (LocalStorageService_save_file [''data'']
            (used_disk\<lparr>denied := [([''data'', ''t'', ''f''], Read)]\<rparr>) ''t'' ''f'' [1]) = Inr ()
   \<and> fst (LocalStorageService_get_file [''data'']
            (snd (LocalStorageService_save_file [''data'']
                    (used_disk\<lparr>denied := [([''data'', ''t'', ''f''], Read)]\<rparr>) ''t'' ''f'' [1]))
            ''t'' ''f'') = Inl PermissionError
   \<and> fst (LocalStorageService_save_file [''data''] (used_disk\<lparr>write_fault := Some (OSError 28)\<rparr>)
            ''t'' ''f'' [1]) = Inl (OSError 28)"
proof -
  have "fst (S3StorageService_save_file ''absent'' example_world (Some ''t'') (Some ''f'') (DBytes [1]))
     = Inl (RuntimeError (bucket_missing_msg ''absent'') no_such_bucket)"
    by (simp add: S3StorageService_save_file_def put_object_def request_def example_world_def
        no_such_bucket_def error_code_of_def Let_def)
  then show ?thesis
    by (simp add: empty_name_save device_save device_get blocked_save long_name_save
          write_denied_save read_denied_save read_denied_get full_disk_save)
       (simp add: S3StorageService_save_file_def S3StorageService_get_file_def)
qed

text \<open>
  Claim C1, amended. On the local backend, when the directory of the identifier exists
  or can be made, the path of the pair then resolves to a regular file, or to a location
  absent from a directory in which an entry may be made, that location may be written
  and read, and the system accepts the write, \<open>save_file\<close> returns and \<open>get_file\<close> on the
  same pair then returns exactly the payload, whatever the file held before; a second
  save of another payload returns too, and \<open>get_file\<close> then returns the second payload.
  On the object-storage backend the same holds for every present identifier and file
  name, when the provider answers for the bucket.
\<close>

theorem save_file_then_get_file:
  "(mkdir st (path_join dd identifier) = (Inr (), st1)
      \<and> resolve st1 (LocalStorageService_build_full_path dd identifier file_name) = Inr q
      \<and> regular_target st1 q \<and> write_fault st1 = None \<longrightarrow>
        fst (LocalStorageService_save_file dd st identifier file_name data) = Inr ()
      \<and> fst (LocalStorageService_get_file dd
              (snd (LocalStorageService_save_file dd st identifier file_name data))
              identifier file_name) = Inr data
      \<and> fst (LocalStorageService_save_file dd
              (snd (LocalStorageService_save_file dd st identifier file_name data))
              identifier file_name data2) = Inr ()
      \<and> fst (LocalStorageService_get_file dd
              (snd (LocalStorageService_save_file dd
                 (snd (LocalStorageService_save_file dd st identifier file_name data))
                 identifier file_name data2))
              identifier file_name) = Inr data2)
   \<and> (\<not> py_not s3_identifier \<and> \<not> py_not s3_file_name \<and> request w bkt = Inr objs \<longrightarrow>
        fst (S3StorageService_save_file bkt w s3_identifier s3_file_name (DBytes data)) = Inr ()
      \<and> fst (S3StorageService_get_file bkt
              (snd (S3StorageService_save_file bkt w s3_identifier s3_file_name (DBytes data)))
              s3_identifier s3_file_name) = Inr data
      \<and> fst (S3StorageService_save_file bkt
              (snd (S3StorageService_save_file bkt w s3_identifier s3_file_name (DBytes data)))
              s3_identifier s3_file_name (DBytes data2)) = Inr ()
      \<and> fst (S3StorageService_get_file bkt
              (snd (S3StorageService_save_file bkt
                 (snd (S3StorageService_save_file bkt w s3_identifier s3_file_name (DBytes data)))
                 s3_identifier s3_file_name (DBytes data2)))
              s3_identifier s3_file_name) = Inr data2)"
proof -
  have s3: "fst (S3StorageService_save_file bkt
              (snd (S3StorageService_save_file bkt w s3_identifier s3_file_name (DBytes data)))
              s3_identifier s3_file_name (DBytes data2)) = Inr ()
      \<and> fst (S3StorageService_get_file bkt
              (snd (S3StorageService_save_file bkt
                 (snd (S3StorageService_save_file bkt w s3_identifier s3_file_name (DBytes data)))
                 s3_identifier s3_file_name (DBytes data2)))
              s3_identifier s3_file_name) = Inr data2"
    if n: "\<not> py_not s3_identifier" "\<not> py_not s3_file_name" and r: "request w bkt = Inr objs"
  proof -
    from S3_save_ok [OF n r, of data] have
      "request (snd (S3StorageService_save_file bkt w s3_identifier s3_file_name (DBytes data))) bkt
           = Inr (AList.update (S3_build_path s3_identifier s3_file_name) data objs)"
      by simp
    from S3_save_then_get [OF n this] show ?thesis .
  qed
  have s3a: "fst (S3StorageService_save_file bkt w s3_identifier s3_file_name (DBytes data)) = Inr ()
      \<and> fst (S3StorageService_get_file bkt
              (snd (S3StorageService_save_file bkt w s3_identifier s3_file_name (DBytes data)))
              s3_identifier s3_file_name) = Inr data"
    if "\<not> py_not s3_identifier" "\<not> py_not s3_file_name" "request w bkt = Inr objs"
    using that by (rule S3_save_then_get)
  have la: "fst (LocalStorageService_save_file dd st identifier file_name data) = Inr ()
      \<and> fst (LocalStorageService_get_file dd
              (snd (LocalStorageService_save_file dd st identifier file_name data))
              identifier file_name) = Inr data"
    if "mkdir st (path_join dd identifier) = (Inr (), st1)"
      "resolve st1 (LocalStorageService_build_full_path dd identifier file_name) = Inr q"
      "regular_target st1 q" "write_fault st1 = None"
    using that by (rule Local_roundtrip)
  have lb: "fst (LocalStorageService_save_file dd
              (snd (LocalStorageService_save_file dd st identifier file_name data))
              identifier file_name data2) = Inr ()
      \<and> fst (LocalStorageService_get_file dd
              (snd (LocalStorageService_save_file dd
                 (snd (LocalStorageService_save_file dd st identifier file_name data))
                 identifier file_name data2))
              identifier file_name) = Inr data2"
    if "mkdir st (path_join dd identifier) = (Inr (), st1)"
      "resolve st1 (LocalStorageService_build_full_path dd identifier file_name) = Inr q"
      "regular_target st1 q" "write_fault st1 = None"
    using that by (rule Local_two_saves)
  show ?thesis
    using la lb s3a s3 by (intro conjI impI) (elim conjE, simp)+
qed

text \<open>C1, amended, on a disk where the file of the pair exists with other bytes, and on
  a provider that holds the bucket.\<close>

theorem save_file_then_get_file_witness:
  "fst (LocalStorageService_save_file [''data''] used_disk ''t'' ''f'' [1, 2]) = Inr ()
   \<and> fst (LocalStorageService_get_file [''data'']
          (snd (LocalStorageService_save_file [''data''] used_disk ''t'' ''f'' [1, 2])) ''t'' ''f'')
     = Inr [1, 2]
   \<and> fst (LocalStorageService_get_file [''data'']
          (snd (LocalStorageService_save_file [''data'']
             (snd (LocalStorageService_save_file [''data''] used_disk ''t'' ''f'' [1, 2]))
             ''t'' ''f'' [3])) ''t'' ''f'')
     = Inr [3]
   \<and> fst (S3StorageService_get_file ''langflow''
          (snd (S3StorageService_save_file ''langflow'' example_world (Some ''t'') (Some ''f'')
             (DBytes [1, 2]))) (Some ''t'') (Some ''f''))
     = Inr [1, 2]
   \<and> fst (S3StorageService_get_file ''langflow''
          (snd (S3StorageService_save_file ''langflow''
             (snd (S3StorageService_save_file ''langflow'' example_world (Some ''t'') (Some ''f'')
                (DBytes [1, 2])))
             (Some ''t'') (Some ''f'') (DBytes [3]))) (Some ''t'') (Some ''f''))
     = Inr [3]"
proof -
  have n: "\<not> py_not (Some ''t'')" "\<not> py_not (Some ''f'')" by simp_all
  from save_file_then_get_file [of used_disk "[''data'']" "''t''" used_disk "''f''"
      "[''data'', ''t'', ''f'']" "[1, 2]" "[3]" "Some ''t''" "Some ''f''" example_world "''langflow''" "[]"]
    used_mkdir used_resolve used_target n example_request
  show ?thesis by blast
qed


text \<open>
  Claim C2 says that \<open>list_files\<close> of the local backend fails with NotFound for an
  identifier whose directory does not exist, and that \<open>list_files\<close> of the
  object-storage backend returns the empty list for a present identifier with no object.
  For an identifier of 300 bytes, whose directory does not exist, the existence test
  itself raises the error of the system for a name that is too long, and \<open>list_files\<close>
  raises that; and a provider without credentials answers no listing, so that
  \<open>list_files\<close> raises although nothing is stored.
\<close>

theorem list_files_missing_namespace_counterexample:
  "LocalStorageService_list_files [''data''] example_disk long_name = (Inl (OSError 36), example_disk)
   \<and> \<not> is_NotFound (OSError 36)
   \<and> map_of (nodes example_disk) [''data'', long_name] = None
   \<and> fst (S3StorageService_list_files ''langflow'' (example_world\<lparr>has_credentials := False\<rparr>) (Some ''t''))
       = Inl NoCredentialsError
   \<and> buckets (example_world\<lparr>has_credentials := False\<rparr>) = [(''langflow'', [])]"
proof -
  have a: "LocalStorageService_list_files [''data''] example_disk long_name = (Inl (OSError 36), example_disk)"
    by (simp add: LocalStorageService_list_files_def Let_def long_tenant_exists)
  have b: "map_of (nodes example_disk) [''data'', long_name] = None"
    using long_name_differs [of "''data''"] long_name_differs [of "''null''"]
    by (simp add: example_disk_def)
  have c: "fst (S3StorageService_list_files ''langflow'' (example_world\<lparr>has_credentials := False\<rparr>) (Some ''t''))
       = Inl NoCredentialsError"
    by (simp add: S3StorageService_list_files_def list_objects_v2_def request_def example_world_def Let_def)
  show ?thesis using a b c by (simp add: example_world_def)
qed

text \<open>
  Claim C2, amended. \<open>list_files\<close> of the local backend raises \<^verbatim>\<open>FileNotFoundError\<close>
  (NotFound), after a warning, when the existence test of the identifier's path answers
  no, or answers yes and the directory test answers no; when the existence test raises,
  \<open>list_files\<close> raises its error. \<open>list_files\<close> of the object-storage backend, for a
  present identifier, returns the empty list when the provider answers for the bucket
  and no key has the prefix of the identifier; when the provider fails, \<open>list_files\<close>
  raises its error.
\<close>

theorem list_files_missing_namespace:
  "(path_exists st (path_join dd identifier) = Inr False
      \<or> path_exists st (path_join dd identifier) = Inr True
         \<and> path_is_dir st (path_join dd identifier) = Inr False \<longrightarrow>
      LocalStorageService_list_files dd st identifier
        = (Inl (FileNotFoundError (''Tenant '' @ identifier @ '' directory does not exist.'')),
           flog st WARNING (''Tenant '' @ identifier @ '' directory does not exist.''))
      \<and> is_NotFound (FileNotFoundError (''Tenant '' @ identifier @ '' directory does not exist.'')))
   \<and> (path_exists st (path_join dd identifier) = Inl e \<longrightarrow>
      LocalStorageService_list_files dd st identifier = (Inl e, st))
   \<and> (\<not> py_not s3_identifier \<and> request w bkt = Inr objs
        \<and> filter (\<lambda>k. startswith k (''tenant-'' @ fmt s3_identifier @ ''/'')) (map fst objs) = [] \<longrightarrow>
      S3StorageService_list_files bkt w s3_identifier
        = (Inr [], alog (called w (ListObjectsV2 bkt (''tenant-'' @ fmt s3_identifier @ ''/''))) INFO
                     (''0 files listed in tenant '' @ fmt s3_identifier @ ''.'')))
   \<and> (\<not> py_not s3_identifier \<and> request w bkt = Inl e' \<longrightarrow>
      fst (S3StorageService_list_files bkt w s3_identifier) = Inl e')"
proof -
  have l: "LocalStorageService_list_files dd st identifier
        = (Inl (FileNotFoundError (''Tenant '' @ identifier @ '' directory does not exist.'')),
           flog st WARNING (''Tenant '' @ identifier @ '' directory does not exist.''))"
    if "path_exists st (path_join dd identifier) = Inr False
      \<or> path_exists st (path_join dd identifier) = Inr True
         \<and> path_is_dir st (path_join dd identifier) = Inr False"
    using that by (auto simp: LocalStorageService_list_files_def tenant_missing_def Let_def)
  have r: "LocalStorageService_list_files dd st identifier = (Inl e, st)"
    if "path_exists st (path_join dd identifier) = Inl e"
    using that by (simp add: LocalStorageService_list_files_def Let_def)
  have s: "S3StorageService_list_files bkt w s3_identifier
        = (Inr [], alog (called w (ListObjectsV2 bkt (''tenant-'' @ fmt s3_identifier @ ''/''))) INFO
                     (''0 files listed in tenant '' @ fmt s3_identifier @ ''.''))"
    if "\<not> py_not s3_identifier" "request w bkt = Inr objs"
       "filter (\<lambda>k. startswith k (''tenant-'' @ fmt s3_identifier @ ''/'')) (map fst objs) = []"
    using that by (rule S3_list_empty)
  have f: "fst (S3StorageService_list_files bkt w s3_identifier) = Inl e'"
    if "\<not> py_not s3_identifier" "request w bkt = Inl e'"
    using that by (simp add: S3StorageService_list_files_def list_objects_v2_def Let_def)
  show ?thesis
    using l r s f by (intro conjI impI) (simp_all del: append.simps)
qed

text \<open>C2, amended, on a disk without the tenant's directory, on a disk where the tenant's
  name is a regular file, at a name that is too long, on an empty bucket, and on a
  provider without credentials.\<close>

theorem list_files_missing_namespace_witness:
  "LocalStorageService_list_files [''data''] example_disk ''t''
     = (Inl (FileNotFoundError ''Tenant t directory does not exist.''),
        flog example_disk WARNING ''Tenant t directory does not exist.'')
   \<and> LocalStorageService_list_files [''data''] blocked_disk ''t''
     = (Inl (FileNotFoundError ''Tenant t directory does not exist.''),
        flog blocked_disk WARNING ''Tenant t directory does not exist.'')
   \<and> LocalStorageService_list_files [''data''] example_disk long_name = (Inl (OSError 36), example_disk)
   \<and> S3StorageService_list_files ''langflow'' example_world (Some ''t'')
     = (Inr [], alog (called example_world (ListObjectsV2 ''langflow'' ''tenant-t/'')) INFO
                  ''0 files listed in tenant t.'')
   \<and> fst (S3StorageService_list_files ''langflow'' (example_world\<lparr>has_credentials := False\<rparr>) (Some ''t''))
     = Inl NoCredentialsError"
proof -
  have c: "\<not> py_not (Some ''t'')"
    "filter (\<lambda>k. startswith k (''tenant-'' @ fmt (Some ''t'') @ ''/'')) (map fst ([] :: (string \<times> bytes) list)) = []"
    by simp_all
  show ?thesis
    using list_files_missing_namespace [of example_disk "[''data'']" "''t''" "OSError 36" "Some ''t''"
        example_world "''langflow''" "[]" NoCredentialsError]
      list_files_missing_namespace [of blocked_disk "[''data'']" "''t''" "OSError 36" "Some ''t''"
        "example_world\<lparr>has_credentials := False\<rparr>" "''langflow''" "[]" NoCredentialsError]
      list_files_missing_namespace [of example_disk "[''data'']" long_name "OSError 36" "Some ''t''"
        example_world "''langflow''" "[]" NoCredentialsError]
      missing_tenant file_tenant long_tenant_exists example_request no_credentials_request c
    by simp
qed


text \<open>
  Claim C4 says that \<open>get_file\<close> fails with NotFound for every pair under which no file
  was saved, on both backends. It does not: on an empty bucket the object-storage backend
  answers an empty identifier with \<^verbatim>\<open>ValueError\<close> (InvalidInput), by its guard, and
  without credentials it raises \<^verbatim>\<open>NoCredentialsError\<close>; on a disk where nothing
  was saved the local backend, asked for the pair of two empty strings, finds the data
  directory itself and fails to read it (\<^verbatim>\<open>IsADirectoryError\<close>); and for
  a file name of 300 bytes, where nothing exists, the existence test raises the error of
  the system for a name that is too long.
\<close>

theorem get_file_absent_counterexample:
  "S3StorageService_get_file ''langflow'' example_world (Some '''') (Some ''f'')
     = (Inl (ValueError ''identifier and file_name must be provided''), example_world)
   \<and> \<not> is_NotFound (ValueError ''identifier and file_name must be provided'')
   \<and> fst (S3StorageService_get_file ''langflow'' (example_world\<lparr>has_credentials := False\<rparr>)
            (Some ''t'') (Some ''f'')) = Inl NoCredentialsError
   \<and> \<not> is_NotFound NoCredentialsError
   \<and> buckets example_world = [(''langflow'', [])]
   \<and> LocalStorageService_get_file [''data''] example_disk '''' '''' = (Inl IsADirectoryError, example_disk)
   \<and> \<not> is_NotFound IsADirectoryError
   \<and> LocalStorageService_get_file [''data''] used_disk ''t'' long_name = (Inl (OSError 36), used_disk)
   \<and> \<not> is_NotFound (OSError 36)
   \<and> map_of (nodes used_disk) [''data'', ''t'', long_name] = None"
proof -
  have a: "LocalStorageService_get_file [''data''] used_disk ''t'' long_name = (Inl (OSError 36), used_disk)"
    using long_file_exists
    by (simp add: LocalStorageService_get_file_def LocalStorageService_build_full_path_def Let_def)
  have b: "map_of (nodes used_disk) [''data'', ''t'', long_name] = None"
    using long_name_differs [of "''f''"] by (simp add: used_disk_def)
  have c: "fst (S3StorageService_get_file ''langflow'' (example_world\<lparr>has_credentials := False\<rparr>)
            (Some ''t'') (Some ''f'')) = Inl NoCredentialsError"
    by (simp add: S3StorageService_get_file_def get_object_def request_def example_world_def Let_def)
  show ?thesis
    using a b c by (simp add: root_get) (simp add: S3StorageService_get_file_def example_world_def)
qed

text \<open>
  Claim C4, amended. \<open>get_file\<close> of the local backend raises \<^verbatim>\<open>FileNotFoundError\<close>
  (NotFound), after a warning, when the existence test of the path of the pair answers
  no; when the test raises, \<open>get_file\<close> raises its error. \<open>get_file\<close> of the
  object-storage backend, for a present identifier and file name, raises the provider's
  \<^verbatim>\<open>NoSuchKey\<close> error (NotFound), after logging it, when the provider answers for the
  bucket and the bucket holds no object at the key of the pair; when the provider fails,
  it raises that error; for a missing identifier or file name it raises \<^verbatim>\<open>ValueError\<close>
  (InvalidInput) and leaves the provider alone.
\<close>

theorem get_file_absent:
  "(path_exists st (LocalStorageService_build_full_path dd identifier file_name) = Inr False \<longrightarrow>
      LocalStorageService_get_file dd st identifier file_name
        = (Inl (FileNotFoundError (''File '' @ file_name @ '' not found with identifier '' @ identifier)),
           flog st WARNING (''File '' @ file_name @ '' not found with identifier '' @ identifier @ ''.''))
      \<and> is_NotFound (FileNotFoundError (''File '' @ file_name @ '' not found with identifier '' @ identifier)))
   \<and> (path_exists st (LocalStorageService_build_full_path dd identifier file_name) = Inl e \<longrightarrow>
      LocalStorageService_get_file dd st identifier file_name = (Inl e, st))
   \<and> (\<not> py_not s3_identifier \<and> \<not> py_not s3_file_name \<and> request w bkt = Inr objs
        \<and> map_of objs (S3_build_path s3_identifier s3_file_name) = None \<longrightarrow>
      S3StorageService_get_file bkt w s3_identifier s3_file_name
        = (Inl (no_such_key (S3_build_path s3_identifier s3_file_name)),
           alog (called w (GetObject bkt (S3_build_path s3_identifier s3_file_name))) EXCEPTION
             (''Error retrieving file '' @ fmt s3_file_name @ '' from tenant '' @ fmt s3_identifier))
      \<and> is_NotFound (no_such_key (S3_build_path s3_identifier s3_file_name)))
   \<and> (\<not> py_not s3_identifier \<and> \<not> py_not s3_file_name \<and> request w bkt = Inl e' \<longrightarrow>
      fst (S3StorageService_get_file bkt w s3_identifier s3_file_name) = Inl e')
   \<and> (py_not s3_identifier \<or> py_not s3_file_name \<longrightarrow>
      S3StorageService_get_file bkt w s3_identifier s3_file_name
        = (Inl (ValueError ''identifier and file_name must be provided''), w)
      \<and> is_InvalidInput (ValueError ''identifier and file_name must be provided''))"
proof -
  have l: "LocalStorageService_get_file dd st identifier file_name
        = (Inl (FileNotFoundError (''File '' @ file_name @ '' not found with identifier '' @ identifier)),
           flog st WARNING (''File '' @ file_name @ '' not found with identifier '' @ identifier @ ''.''))"
    if "path_exists st (LocalStorageService_build_full_path dd identifier file_name) = Inr False"
    using that by (simp add: LocalStorageService_get_file_def LocalStorageService_build_full_path_def Let_def)
  have r: "LocalStorageService_get_file dd st identifier file_name = (Inl e, st)"
    if "path_exists st (LocalStorageService_build_full_path dd identifier file_name) = Inl e"
    using that by (simp add: LocalStorageService_get_file_def LocalStorageService_build_full_path_def Let_def)
  have k: "is_NotFound (no_such_key x)" for x
    by (simp add: no_such_key_def error_code_of_def)
  have a: "S3StorageService_get_file bkt w s3_identifier s3_file_name
        = (Inl (no_such_key (S3_build_path s3_identifier s3_file_name)),
           alog (called w (GetObject bkt (S3_build_path s3_identifier s3_file_name))) EXCEPTION
             (''Error retrieving file '' @ fmt s3_file_name @ '' from tenant '' @ fmt s3_identifier))"
    if "\<not> py_not s3_identifier" "\<not> py_not s3_file_name" "request w bkt = Inr objs"
      "map_of objs (S3_build_path s3_identifier s3_file_name) = None"
    using that by (rule S3_get_absent)
  have f: "fst (S3StorageService_get_file bkt w s3_identifier s3_file_name) = Inl e'"
    if "\<not> py_not s3_identifier" "\<not> py_not s3_file_name" "request w bkt = Inl e'"
    using that by (simp add: S3StorageService_get_file_def get_object_def Let_def)
  have g: "S3StorageService_get_file bkt w s3_identifier s3_file_name
        = (Inl (ValueError ''identifier and file_name must be provided''), w)"
    if "py_not s3_identifier \<or> py_not s3_file_name"
    using that by (auto simp: S3StorageService_get_file_def)
  show ?thesis
    using l r k a f g by (intro conjI impI) (simp_all del: append.simps)
qed

text \<open>C4, amended, on a disk and a bucket that hold no file, at a name that is too long,
  on a provider without credentials, and at an absent identifier.\<close>

theorem get_file_absent_witness:
  "LocalStorageService_get_file [''data''] example_disk ''t'' ''f''
     = (Inl (FileNotFoundError ''File f not found with identifier t''),
        flog example_disk WARNING ''File f not found with identifier t.'')
   \<and> LocalStorageService_get_file [''data''] used_disk ''t'' long_name = (Inl (OSError 36), used_disk)
   \<and> S3StorageService_get_file ''langflow'' example_world (Some ''t'') (Some ''f'')
     = (Inl (no_such_key ''tenant-t/f''),
        alog (called example_world (GetObject ''langflow'' ''tenant-t/f'')) EXCEPTION
          ''Error retrieving file f from tenant t'')
   \<and> fst (S3StorageService_get_file ''langflow'' (example_world\<lparr>has_credentials := False\<rparr>)
            (Some ''t'') (Some ''f'')) = Inl NoCredentialsError
   \<and> S3StorageService_get_file ''langflow'' example_world None (Some ''f'')
       = (Inl (ValueError ''identifier and file_name must be provided''), example_world)"
proof -
  have c: "\<not> py_not (Some ''t'')" "\<not> py_not (Some ''f'')"
    "map_of [] (S3_build_path (Some ''t'') (Some ''f'')) = (None :: bytes option)"
    "S3_build_path (Some ''t'') (Some ''f'') = ''tenant-t/f''" "py_not None"
    by (simp_all add: S3_build_path_def)
  show ?thesis
    using get_file_absent [of example_disk "[''data'']" "''t''" "''f''" "OSError 36" "Some ''t''" "Some ''f''"
        example_world "''langflow''" "[]" NoCredentialsError]
      get_file_absent [of used_disk "[''data'']" "''t''" long_name "OSError 36" "Some ''t''" "Some ''f''"
        "example_world\<lparr>has_credentials := False\<rparr>" "''langflow''" "[]" NoCredentialsError]
      get_file_absent [of used_disk "[''data'']" "''t''" long_name "OSError 36" None "Some ''f''"
        example_world "''langflow''" "[]" NoCredentialsError]
      missing_file long_file_exists example_request no_credentials_request c
    by simp
qed


text \<open>
  Claim C8 says that \<open>delete_file\<close> completes without an error for every pair whose file
  does not exist, on both backends. It does not: on an empty bucket the object-storage
  backend answers an empty identifier with \<^verbatim>\<open>ValueError\<close>, by its guard, and without
  credentials it raises \<^verbatim>\<open>NoCredentialsError\<close>; on a disk where nothing was saved
  the local backend, asked for the pair of two empty strings, finds the data directory
  itself and fails to unlink it; and for a file name of 300 bytes, where nothing exists,
  the existence test raises the error of the system for a name that is too long.
\<close>

theorem delete_file_absent_counterexample:
  "S3StorageService_delete_file ''langflow'' example_world (Some '''') (Some ''f'')
     = (Inl (ValueError ''identifier and file_name must be provided''), example_world)
   \<and> fst (S3StorageService_delete_file ''langflow'' (example_world\<lparr>has_credentials := False\<rparr>)
            (Some ''t'') (Some ''f'')) = Inl NoCredentialsError
   \<and> buckets example_world = [(''langflow'', [])]
   \<and> LocalStorageService_delete_file [''data''] example_disk '''' '''' = (Inl IsADirectoryError, example_disk)
   \<and> LocalStorageService_delete_file [''data''] used_disk ''t'' long_name = (Inl (OSError 36), used_disk)
   \<and> map_of (nodes used_disk) [''data'', ''t'', long_name] = None"
proof -
  have a: "LocalStorageService_delete_file [''data''] used_disk ''t'' long_name = (Inl (OSError 36), used_disk)"
    using long_file_exists
    by (simp add: LocalStorageService_delete_file_def LocalStorageService_build_full_path_def Let_def)
  have b: "map_of (nodes used_disk) [''data'', ''t'', long_name] = None"
    using long_name_differs [of "''f''"] by (simp add: used_disk_def)
  have c: "fst (S3StorageService_delete_file ''langflow'' (example_world\<lparr>has_credentials := False\<rparr>)
            (Some ''t'') (Some ''f'')) = Inl NoCredentialsError"
    by (simp add: S3StorageService_delete_file_def delete_object_def request_def example_world_def Let_def)
  show ?thesis
    using a b c by (simp add: root_delete) (simp add: S3StorageService_delete_file_def example_world_def)
qed

text \<open>
  Claim C8, amended. \<open>delete_file\<close> of the local backend, when the existence test of the
  path of the pair answers no, logs a warning, unlinks nothing and returns; when the
  test raises, \<open>delete_file\<close> raises its error. \<open>delete_file\<close> of the object-storage
  backend, for a present identifier and file name, when the provider answers for the
  bucket and the key of the pair holds no object, makes the delete request, logs it and
  returns, and the buckets hold what they held; when the provider fails, it raises that
  error; for a missing identifier or file name it raises \<^verbatim>\<open>ValueError\<close> (InvalidInput)
  and leaves the provider alone.
\<close>

theorem delete_file_absent:
  "(path_exists st (LocalStorageService_build_full_path dd identifier file_name) = Inr False \<longrightarrow>
      LocalStorageService_delete_file dd st identifier file_name
        = (Inr (), flog st WARNING (''Attempted to delete non-existent file '' @ file_name
                                     @ '' with identifier '' @ identifier @ ''.''))
      \<and> nodes (snd (LocalStorageService_delete_file dd st identifier file_name)) = nodes st)
   \<and> (path_exists st (LocalStorageService_build_full_path dd identifier file_name) = Inl e \<longrightarrow>
      LocalStorageService_delete_file dd st identifier file_name = (Inl e, st))
   \<and> (\<not> py_not s3_identifier \<and> \<not> py_not s3_file_name \<and> request w bkt = Inr objs
        \<and> map_of objs (S3_build_path s3_identifier s3_file_name) = None \<longrightarrow>
      S3StorageService_delete_file bkt w s3_identifier s3_file_name
        = (Inr (), alog (called w (DeleteObject bkt (S3_build_path s3_identifier s3_file_name))) INFO
                     (''File '' @ fmt s3_file_name @ '' deleted successfully from tenant ''
                       @ fmt s3_identifier @ ''.''))
      \<and> buckets (snd (S3StorageService_delete_file bkt w s3_identifier s3_file_name)) = buckets w)
   \<and> (\<not> py_not s3_identifier \<and> \<not> py_not s3_file_name \<and> request w bkt = Inl e' \<longrightarrow>
      fst (S3StorageService_delete_file bkt w s3_identifier s3_file_name) = Inl e')
   \<and> (py_not s3_identifier \<or> py_not s3_file_name \<longrightarrow>
      S3StorageService_delete_file bkt w s3_identifier s3_file_name
        = (Inl (ValueError ''identifier and file_name must be provided''), w)
      \<and> is_InvalidInput (ValueError ''identifier and file_name must be provided''))"
proof -
  have l: "LocalStorageService_delete_file dd st identifier file_name
        = (Inr (), flog st WARNING (''Attempted to delete non-existent file '' @ file_name
                                     @ '' with identifier '' @ identifier @ ''.''))"
    if "path_exists st (LocalStorageService_build_full_path dd identifier file_name) = Inr False"
    using that
    by (simp add: LocalStorageService_delete_file_def LocalStorageService_build_full_path_def Let_def)
  have r: "LocalStorageService_delete_file dd st identifier file_name = (Inl e, st)"
    if "path_exists st (LocalStorageService_build_full_path dd identifier file_name) = Inl e"
    using that
    by (simp add: LocalStorageService_delete_file_def LocalStorageService_build_full_path_def Let_def)
  have a: "S3StorageService_delete_file bkt w s3_identifier s3_file_name
        = (Inr (), alog (called w (DeleteObject bkt (S3_build_path s3_identifier s3_file_name))) INFO
                     (''File '' @ fmt s3_file_name @ '' deleted successfully from tenant ''
                       @ fmt s3_identifier @ ''.''))"
    if "\<not> py_not s3_identifier" "\<not> py_not s3_file_name" "request w bkt = Inr objs"
      "map_of objs (S3_build_path s3_identifier s3_file_name) = None"
    using that by (rule S3_delete_absent)
  have l2: "nodes (snd (LocalStorageService_delete_file dd st identifier file_name)) = nodes st"
    if "path_exists st (LocalStorageService_build_full_path dd identifier file_name) = Inr False"
    using l [OF that] by (simp add: flog_def)
  have a2: "buckets (snd (S3StorageService_delete_file bkt w s3_identifier s3_file_name)) = buckets w"
    if "\<not> py_not s3_identifier" "\<not> py_not s3_file_name" "request w bkt = Inr objs"
      "map_of objs (S3_build_path s3_identifier s3_file_name) = None"
    using a [OF that] by (simp add: alog_def called_def)
  have f: "fst (S3StorageService_delete_file bkt w s3_identifier s3_file_name) = Inl e'"
    if "\<not> py_not s3_identifier" "\<not> py_not s3_file_name" "request w bkt = Inl e'"
    using that by (simp add: S3StorageService_delete_file_def delete_object_def Let_def)
  have g: "S3StorageService_delete_file bkt w s3_identifier s3_file_name
        = (Inl (ValueError ''identifier and file_name must be provided''), w)"
    if "py_not s3_identifier \<or> py_not s3_file_name"
    using that by (auto simp: S3StorageService_delete_file_def)
  show ?thesis
    using l l2 r a a2 f g by (intro conjI impI) (simp_all del: append.simps)
qed

text \<open>C8, amended, on a disk and a bucket that hold no file, at a name that is too long,
  on a provider without credentials, and at an absent identifier.\<close>

theorem delete_file_absent_witness:
  "LocalStorageService_delete_file [''data''] example_disk ''t'' ''f''
     = (Inr (), flog example_disk WARNING ''Attempted to delete non-existent file f with identifier t.'')
   \<and> LocalStorageService_delete_file [''data''] used_disk ''t'' long_name = (Inl (OSError 36), used_disk)
   \<and> S3StorageService_delete_file ''langflow'' example_world (Some ''t'') (Some ''f'')
     = (Inr (), alog (called example_world (DeleteObject ''langflow'' ''tenant-t/f'')) INFO
                  ''File f deleted successfully from tenant t.'')
   \<and> fst (S3StorageService_delete_file ''langflow'' (example_world\<lparr>has_credentials := False\<rparr>)
            (Some ''t'') (Some ''f'')) = Inl NoCredentialsError
   \<and> S3StorageService_delete_file ''langflow'' example_world None (Some ''f'')
       = (Inl (ValueError ''identifier and file_name must be provided''), example_world)"
proof -
  have c: "\<not> py_not (Some ''t'')" "\<not> py_not (Some ''f'')"
    "map_of [] (S3_build_path (Some ''t'') (Some ''f'')) = (None :: bytes option)"
    "S3_build_path (Some ''t'') (Some ''f'') = ''tenant-t/f''" "py_not None"
    by (simp_all add: S3_build_path_def)
  show ?thesis
    using delete_file_absent [of example_disk "[''data'']" "''t''" "''f''" "OSError 36" "Some ''t''" "Some ''f''"
        example_world "''langflow''" "[]" NoCredentialsError]
      delete_file_absent [of used_disk "[''data'']" "''t''" long_name "OSError 36" "Some ''t''" "Some ''f''"
        "example_world\<lparr>has_credentials := False\<rparr>" "''langflow''" "[]" NoCredentialsError]
      delete_file_absent [of used_disk "[''data'']" "''t''" long_name "OSError 36" None "Some ''f''"
        example_world "''langflow''" "[]" NoCredentialsError]
      missing_file long_file_exists example_request no_credentials_request c
    by simp
qed


section \<open>The claim about logging in the local \<open>save_file\<close>\<close>

text \<open>In \<open>save_file\<close> an error of making the directory is raised with nothing logged;
  an error of opening or writing the file is logged with the file name and the
  identifier, and raised unchanged.\<close>

lemma save_file_failures:
  "(mkdir st (path_join dd identifier) = (Inl e, st1) \<longrightarrow>
      LocalStorageService_save_file dd st identifier file_name data = (Inl e, st1)
      \<and> fs_log st1 = fs_log st)
   \<and> (mkdir st (path_join dd identifier) = (Inr (), st1)
        \<and> open_wb_write st1 (path_join (path_join dd identifier) file_name) data = (Inl e, st2) \<longrightarrow>
      LocalStorageService_save_file dd st identifier file_name data
        = (Inl e, flog st2 EXCEPTION (''Error saving file '' @ file_name @ '' with identifier '' @ identifier))
      \<and> fs_log (snd (LocalStorageService_save_file dd st identifier file_name data))
        = fs_log st @ [(EXCEPTION, ''Error saving file '' @ file_name @ '' with identifier '' @ identifier)])"
proof -
  have a: "LocalStorageService_save_file dd st identifier file_name data = (Inl e, st1)
      \<and> fs_log st1 = fs_log st"
    if m: "mkdir st (path_join dd identifier) = (Inl e, st1)"
  proof -
    have "fs_log st1 = fs_log st"
      using mkdir_log [of st "path_join dd identifier"] by (simp add: m)
    then show ?thesis
      by (simp add: LocalStorageService_save_file_def Let_def m)
  qed
  have b: "LocalStorageService_save_file dd st identifier file_name data
        = (Inl e, flog st2 EXCEPTION (''Error saving file '' @ file_name @ '' with identifier '' @ identifier))
      \<and> fs_log (snd (LocalStorageService_save_file dd st identifier file_name data))
        = fs_log st @ [(EXCEPTION, ''Error saving file '' @ file_name @ '' with identifier '' @ identifier)]"
    if m: "mkdir st (path_join dd identifier) = (Inr (), st1)"
      and o: "open_wb_write st1 (path_join (path_join dd identifier) file_name) data = (Inl e, st2)"
  proof -
    have "fs_log st1 = fs_log st"
      using mkdir_log [of st "path_join dd identifier"] by (simp add: m)
    moreover have "fs_log st2 = fs_log st1"
      using open_wb_write_log [of st1 "path_join (path_join dd identifier) file_name" data]
      by (simp add: o)
    ultimately show ?thesis
      by (simp add: LocalStorageService_save_file_def Let_def m o flog_simps)
  qed
  show ?thesis using a b by blast
qed

text \<open>
  Claim C5 says that no failing path of the local \<open>save_file\<close> raises without logging.
  The directory is made before the \<^verbatim>\<open>try\<close> block is entered: where the tenant's name is
  a regular file, \<open>save_file\<close> raises \<^verbatim>\<open>FileExistsError\<close> and the log stays empty, while
  the error of writing to a directory, inside the block, is logged.
\<close>

theorem save_file_mkdir_failure_not_logged:
  "LocalStorageService_save_file [''data''] blocked_disk ''t'' ''f'' [1] = (Inl FileExistsError, blocked_disk)
   \<and> fs_log blocked_disk = []
   \<and> LocalStorageService_save_file [''data''] used_disk ''t'' '''' [1]
       = (Inl IsADirectoryError, flog used_disk EXCEPTION ''Error saving file  with identifier t'')"
proof -
  have a: "LocalStorageService_save_file [''data''] blocked_disk ''t'' ''f'' [1]
              = (Inl FileExistsError, blocked_disk)"
    by (simp add: LocalStorageService_save_file_def blocked_disk_def fs_eval Let_def)
  have b: "LocalStorageService_save_file [''data''] used_disk ''t'' '''' [1]
       = (Inl IsADirectoryError, flog used_disk EXCEPTION ''Error saving file  with identifier t'')"
    by (simp add: LocalStorageService_save_file_def used_disk_def fs_eval open_wb_write_def Let_def)
  show ?thesis using a b by (simp add: blocked_disk_def)
qed


section \<open>The readiness flag\<close>

text \<open>Along the construction of either backend the flag never goes back to false.\<close>

lemma init_trace: "StorageService_init self st =
   [self\<lparr>self_settings_service := Some st\<rparr>,
    self\<lparr>self_settings_service := Some st, self_session_service := Some ()\<rparr>,
    self\<lparr>self_settings_service := Some st, self_session_service := Some (),
         self_data_dir := Some (path_parts (config_dir st))\<rparr>,
    self\<lparr>self_settings_service := Some st, self_session_service := Some (),
         self_data_dir := Some (path_parts (config_dir st)), ready := True\<rparr>]"
  by (simp add: StorageService_init_def set_ready_def Let_def)

lemma ready_one_way:
  "one_way (Service_new # LocalStorageService_init Service_new st)
   \<and> one_way (Service_new # fst (S3StorageService_init default_bucket_name default_region_name environ
                                   boto3_client Service_new st))"
  by (simp add: S3StorageService_init_def LocalStorageService_init_def init_trace Service_new_def Let_def
      set_ready_def split: sum.splits)

text \<open>
  Claim C6 says that the flag is not true before the construction steps of the backend
  have all completed. The constructor of the base class sets it: in the object-storage
  constructor the state after the call of the base constructor (the fourth state) has
  the flag true, with no bucket resolved and no client built; and when building the
  client raises, the constructor raises with the flag of the object true.
\<close>

theorem ready_before_client_is_built:
  "ready (fst (S3StorageService_init default_bucket_name default_region_name environ boto3_client
                 Service_new st) ! 3)
   \<and> self_s3_client (fst (S3StorageService_init default_bucket_name default_region_name environ
                            boto3_client Service_new st) ! 3) = None
   \<and> self_bucket (fst (S3StorageService_init default_bucket_name default_region_name environ
                            boto3_client Service_new st) ! 3) = None
   \<and> snd (S3StorageService_init default_bucket_name default_region_name environ
            (\<lambda>client_kwargs. Inl e) Service_new st) = Some e
   \<and> ready (last (fst (S3StorageService_init default_bucket_name default_region_name environ
            (\<lambda>client_kwargs. Inl e) Service_new st)))
   \<and> self_s3_client (last (fst (S3StorageService_init default_bucket_name default_region_name environ
            (\<lambda>client_kwargs. Inl e) Service_new st))) = None"
  by (simp add: S3StorageService_init_def init_trace Service_new_def Let_def split: sum.splits)


section \<open>The claim about OutputValue\<close>




end
